theory Spec2Isabelle
  imports Complex_Main "HOL-Library.Word" "HOL-Library.Sublist"
    "HOL-Library.AList"
begin

section \<open>JavaScript values\<close>

text \<open>
  The interceptor (\<^verbatim>\<open>src/fetch-interceptor.ts\<close>) is TypeScript running on Node.js. Its
  strings are sequences of UTF-16 code units; the model uses \<^typ>\<open>string\<close> and so covers
  the strings whose code units lie in 0..255 (Latin-1), with \<open>length\<close> counting code units
  as \<^verbatim>\<open>.length\<close> does. Where a platform function would produce a code unit above 255 the
  model writes the character \<open>?\<close> for it; this happens only in \<open>utf8_decode\<close> and in
  \<^verbatim>\<open>\u\<close> escapes of JSON strings.

  Numbers are IEEE 754 doubles. A finite double is represented by its exact rational
  value; the sign of zero is not represented (no operation of this program tells
  \<open>-0\<close> from \<open>0\<close>).
\<close>

datatype jsnum = Fin rat | PInf | NInf | NaN

datatype jsval =
    JNull
  | JBool bool
  | JNum jsnum
  | JStr string
  | JArr "jsval list"
  | JObj "(string \<times> jsval) list"

type_synonym byte = "8 word"

text \<open>
  Exceptions: an instance of \<^verbatim>\<open>Error\<close> with its message, or any other thrown value.
  \<open>error_message\<close> is the expression
  \<^verbatim>\<open>error instanceof Error ? error.message : 'Unknown error'\<close> of the catch handlers.
\<close>

datatype exn = Error string | NonError

fun error_message :: "exn \<Rightarrow> string" where
  "error_message (Error m) = m"
| "error_message NonError = ''Unknown error''"

subsection \<open>Rounding to double precision\<close>

definition pow2 :: "int \<Rightarrow> rat" where
  "pow2 e = (if 0 \<le> e then 2 ^ nat e else 1 / 2 ^ nat (- e))"

function bit_length :: "int \<Rightarrow> int" where
  \<comment> \<open>the number of binary digits of a positive integer\<close>
  "bit_length a = (if a \<le> 0 then 0 else 1 + bit_length (a div 2))"
  by pat_completeness auto
termination
  by (relation "measure nat") auto

definition floor_log2 :: "rat \<Rightarrow> int" where
  \<comment> \<open>for \<open>x > 0\<close>: the \<open>e\<close> with \<open>2^e \<le> x < 2^(e+1)\<close>\<close>
  "floor_log2 x =
     (let (a, b) = quotient_of x;
          k = bit_length a - bit_length b
      in if pow2 k \<le> x then k else k - 1)"

definition round_half_even :: "rat \<Rightarrow> int" where
  "round_half_even q =
     (let f = \<lfloor>q\<rfloor>; r = q - of_int f
      in if r < 1 / 2 then f
         else if 1 / 2 < r then f + 1
         else if even f then f else f + 1)"

definition round_pos :: "rat \<Rightarrow> jsnum" where
  \<comment> \<open>round-to-nearest, ties-to-even, of \<open>x > 0\<close>: 53 significant bits, exponents
      from -1022 (below that the spacing stays \<open>2^-1074\<close>), overflow to infinity\<close>
  "round_pos x =
     (let e = max (floor_log2 x) (- 1022);
          u = pow2 (e - 52);
          r = of_int (round_half_even (x / u)) * u
      in if e < 1023 then Fin r
         else if pow2 1024 \<le> r then PInf else Fin r)"

fun jsnum_neg :: "jsnum \<Rightarrow> jsnum" where
  "jsnum_neg (Fin x) = Fin (- x)"
| "jsnum_neg PInf = NInf"
| "jsnum_neg NInf = PInf"
| "jsnum_neg NaN = NaN"

definition to_double :: "rat \<Rightarrow> jsnum" where
  "to_double x =
     (if x = 0 then Fin 0
      else if 0 < x then round_pos x
      else jsnum_neg (round_pos (- x)))"

fun js_gt :: "jsnum \<Rightarrow> jsnum \<Rightarrow> bool" where
  \<comment> \<open>the operator \<^verbatim>\<open>>\<close> on numbers\<close>
  "js_gt (Fin x) (Fin y) = (y < x)"
| "js_gt NaN _ = False"
| "js_gt _ NaN = False"
| "js_gt PInf PInf = False"
| "js_gt PInf _ = True"
| "js_gt _ PInf = False"
| "js_gt NInf _ = False"
| "js_gt _ NInf = True"

definition js_div_nat :: "nat \<Rightarrow> nat \<Rightarrow> jsnum" where
  \<comment> \<open>the operator \<^verbatim>\<open>/\<close> on two non-negative integers below \<open>2^53\<close> (array lengths)\<close>
  "js_div_nat a b =
     (if b = 0 then (if a = 0 then NaN else PInf)
      else to_double (of_nat a / of_nat b))"

section \<open>The binary heuristic\<close>

definition nonPrintable :: "byte \<Rightarrow> bool" where
  "nonPrintable b \<longleftrightarrow> b < 32 \<and> b \<noteq> 9 \<and> b \<noteq> 10 \<and> b \<noteq> 13"

definition nonPrintableCount :: "byte list \<Rightarrow> nat" where
  "nonPrintableCount bytes = length (filter nonPrintable bytes)"

definition isBinary :: "byte list \<Rightarrow> bool" where
  "isBinary bytes =
     js_gt (js_div_nat (nonPrintableCount bytes) (length bytes)) (to_double (3 / 10))"


section \<open>Strings\<close>

definition toLowerCase_char :: "char \<Rightarrow> char" where
  \<comment> \<open>on code units 0..255: A-Z and the Latin-1 capitals except the multiplication sign\<close>
  "toLowerCase_char c =
     (let n = (of_char c :: nat)
      in if (65 \<le> n \<and> n \<le> 90) \<or> (192 \<le> n \<and> n \<le> 222 \<and> n \<noteq> 215)
         then char_of (n + 32) else c)"

definition toLowerCase :: "string \<Rightarrow> string" where
  "toLowerCase s = map toLowerCase_char s"

fun str_includes :: "string \<Rightarrow> string \<Rightarrow> bool" where
  \<comment> \<open>\<^verbatim>\<open>s.includes(t)\<close>: \<open>t\<close> occurs in \<open>s\<close> as a contiguous substring\<close>
  "str_includes [] t = (t = [])"
| "str_includes (c # cs) t = (prefix t (c # cs) \<or> str_includes cs t)"

definition substring :: "string \<Rightarrow> nat \<Rightarrow> nat \<Rightarrow> string" where
  \<comment> \<open>\<^verbatim>\<open>s.substring(a, b)\<close> for \<open>a \<le> b\<close>\<close>
  "substring s a b = take (b - a) (drop a s)"

fun split_on :: "char \<Rightarrow> string \<Rightarrow> string list" where
  \<comment> \<open>\<^verbatim>\<open>s.split(sep)\<close> for a one-character separator\<close>
  "split_on sep [] = [[]]"
| "split_on sep (c # cs) =
     (if c = sep then [] # split_on sep cs
      else (case split_on sep cs of p # ps \<Rightarrow> (c # p) # ps | [] \<Rightarrow> [[c]]))"

definition is_digit :: "char \<Rightarrow> bool" where
  "is_digit c \<longleftrightarrow> 48 \<le> (of_char c :: nat) \<and> (of_char c :: nat) \<le> 57"

definition digit_val :: "char \<Rightarrow> int" where
  "digit_val c = of_char c - 48"

definition digits_val :: "string \<Rightarrow> int" where
  "digits_val ds = foldl (\<lambda>n d. 10 * n + digit_val d) 0 ds"

definition is_space :: "char \<Rightarrow> bool" where
  \<comment> \<open>white space and line terminators of ECMAScript (\<^verbatim>\<open>\s\<close>), among code units 0..255\<close>
  "is_space c \<longleftrightarrow> (of_char c :: nat) \<in> {9, 10, 11, 12, 13, 32, 160}"

subsection \<open>Objects\<close>

text \<open>
  An object is the list of its own properties in enumeration order: array-index keys first,
  in ascending numeric order, then the other keys in insertion order.
\<close>

definition array_index :: "string \<Rightarrow> int option" where
  \<comment> \<open>a canonical numeric string below \<open>2^32 - 1\<close>\<close>
  "array_index k =
     (if k \<noteq> [] \<and> list_all is_digit k \<and> (k = ''0'' \<or> hd k \<noteq> CHR ''0'')
         \<and> digits_val k < 4294967295
      then Some (digits_val k) else None)"

fun insert_index :: "int \<Rightarrow> string \<Rightarrow> 'v \<Rightarrow> (string \<times> 'v) list \<Rightarrow> (string \<times> 'v) list" where
  "insert_index i k v [] = [(k, v)]"
| "insert_index i k v ((k', v') # r) =
     (case array_index k' of
        Some j \<Rightarrow> if j < i then (k', v') # insert_index i k v r else (k, v) # (k', v') # r
      | None \<Rightarrow> (k, v) # (k', v') # r)"

definition obj_define :: "string \<Rightarrow> 'v \<Rightarrow> (string \<times> 'v) list \<Rightarrow> (string \<times> 'v) list" where
  \<comment> \<open>the definition of an own property (\<^verbatim>\<open>CreateDataProperty\<close>), as \<^verbatim>\<open>JSON.parse\<close> and
      \<^verbatim>\<open>Object.fromEntries\<close> do it\<close>
  "obj_define k v obj =
     (if k \<in> fst ` set obj then AList.update k v obj
      else case array_index k of
             Some i \<Rightarrow> insert_index i k v obj
           | None \<Rightarrow> obj @ [(k, v)])"

definition obj_set :: "string \<Rightarrow> 'v \<Rightarrow> (string \<times> 'v) list \<Rightarrow> (string \<times> 'v) list" where
  \<comment> \<open>the assignment \<^verbatim>\<open>obj[k] = v\<close> of a string or another primitive value to a plain
      object: the key \<^verbatim>\<open>__proto__\<close>, unless it is an own property, reaches the setter
      inherited from \<^verbatim>\<open>Object.prototype\<close>, which ignores a value that is not an object\<close>
  "obj_set k v obj =
     (if k = ''__proto__'' \<and> k \<notin> fst ` set obj then obj else obj_define k v obj)"

definition obj_get :: "(string \<times> 'v) list \<Rightarrow> string \<Rightarrow> 'v option" where
  \<comment> \<open>the read \<^verbatim>\<open>obj[k]\<close>; \<open>None\<close> is \<^verbatim>\<open>undefined\<close>\<close>
  "obj_get obj k = map_of obj k"

fun truthy :: "jsval \<Rightarrow> bool" where
  "truthy JNull = False"
| "truthy (JBool b) = b"
| "truthy (JNum (Fin x)) = (x \<noteq> 0)"
| "truthy (JNum NaN) = False"
| "truthy (JNum _) = True"
| "truthy (JStr s) = (s \<noteq> [])"
| "truthy (JArr _) = True"
| "truthy (JObj _) = True"

section \<open>\<^verbatim>\<open>JSON.parse\<close>\<close>

text \<open>
  \<open>JSON_parse\<close> models the built-in on a string argument; \<open>None\<close> stands for the
  \<^verbatim>\<open>SyntaxError\<close> it throws. The text is cut into tokens by a character automaton and the
  tokens are assembled by a stack automaton.
\<close>

datatype token =
  TLBrace | TRBrace | TLBrack | TRBrack | TColon | TComma
  | TStr string | TNum jsnum | TTrue | TFalse | TNull

definition pow10 :: "int \<Rightarrow> rat" where
  "pow10 e = (if 0 \<le> e then 10 ^ nat e else 1 / 10 ^ nat (- e))"

definition number_token :: "string \<Rightarrow> jsnum option" where
  \<comment> \<open>\<^verbatim>\<open>-? (0 | [1-9][0-9]*) (. [0-9]+)? ([eE] [+-]? [0-9]+)?\<close>\<close>
  "number_token w =
     (let neg = (w \<noteq> [] \<and> hd w = CHR ''-'');
          w1 = (if neg then tl w else w);
          ip = takeWhile is_digit w1;
          w2 = dropWhile is_digit w1;
          has_frac = (w2 \<noteq> [] \<and> hd w2 = CHR ''.'');
          fp = (if has_frac then takeWhile is_digit (tl w2) else []);
          w3 = (if has_frac then dropWhile is_digit (tl w2) else w2);
          has_exp = (w3 \<noteq> [] \<and> (hd w3 = CHR ''e'' \<or> hd w3 = CHR ''E''));
          w4 = (if has_exp then tl w3 else w3);
          eneg = (has_exp \<and> w4 \<noteq> [] \<and> hd w4 = CHR ''-'');
          w5 = (if has_exp \<and> w4 \<noteq> [] \<and> (hd w4 = CHR ''-'' \<or> hd w4 = CHR ''+'')
                then tl w4 else w4);
          ep = (if has_exp then takeWhile is_digit w5 else []);
          w6 = (if has_exp then dropWhile is_digit w5 else w5)
      in if ip = [] \<or> (ip \<noteq> ''0'' \<and> hd ip = CHR ''0'') \<or> (has_frac \<and> fp = [])
            \<or> (has_exp \<and> ep = []) \<or> w6 \<noteq> []
         then None
         else let e = (if eneg then - digits_val ep else digits_val ep);
                  m = of_int (digits_val (ip @ fp)) * pow10 (e - int (length fp))
              in Some (to_double (if neg then - m else m)))"

definition word_token :: "string \<Rightarrow> token option" where
  "word_token w =
     (if w = ''true'' then Some TTrue
      else if w = ''false'' then Some TFalse
      else if w = ''null'' then Some TNull
      else map_option TNum (number_token w))"

definition punct :: "char \<Rightarrow> token option" where
  "punct c =
     (if c = CHR ''{'' then Some TLBrace
      else if c = CHR ''}'' then Some TRBrace
      else if c = CHR ''['' then Some TLBrack
      else if c = CHR '']'' then Some TRBrack
      else if c = CHR '':'' then Some TColon
      else if c = CHR '','' then Some TComma
      else None)"

definition is_ws :: "char \<Rightarrow> bool" where
  \<comment> \<open>JSON white space: tab, line feed, carriage return, space\<close>
  "is_ws c \<longleftrightarrow> (of_char c :: nat) \<in> {9, 10, 13, 32}"

definition word_char :: "char \<Rightarrow> bool" where
  \<comment> \<open>the characters of literals and numbers; a maximal run of them is one word\<close>
  "word_char c \<longleftrightarrow>
     (let n = (of_char c :: nat)
      in (48 \<le> n \<and> n \<le> 57) \<or> (65 \<le> n \<and> n \<le> 90) \<or> (97 \<le> n \<and> n \<le> 122)
         \<or> c = CHR ''+'' \<or> c = CHR ''-'' \<or> c = CHR ''.'')"

definition escape_char :: "char \<Rightarrow> char option" where
  "escape_char c =
     (if c = CHR 0x22 then Some (CHR 0x22)
      else if c = CHR 0x5C then Some (CHR 0x5C)
      else if c = CHR ''/'' then Some (CHR ''/'')
      else if c = CHR ''b'' then Some (CHR 0x08)
      else if c = CHR ''f'' then Some (CHR 0x0C)
      else if c = CHR ''n'' then Some (CHR 0x0A)
      else if c = CHR ''r'' then Some (CHR 0x0D)
      else if c = CHR ''t'' then Some (CHR 0x09)
      else None)"

definition hex_val :: "char \<Rightarrow> nat option" where
  "hex_val c =
     (let n = (of_char c :: nat)
      in if 48 \<le> n \<and> n \<le> 57 then Some (n - 48)
         else if 65 \<le> n \<and> n \<le> 70 then Some (n - 55)
         else if 97 \<le> n \<and> n \<le> 102 then Some (n - 87)
         else None)"

definition code_unit_char :: "nat \<Rightarrow> char" where
  \<comment> \<open>a code unit as a character of the model\<close>
  "code_unit_char n = (if n < 256 then char_of n else CHR ''?'')"

datatype lex_mode =
    LIdle
  | LWord string
  | LStr string
  | LEsc string
  | LUni string "nat list"

fun lex :: "lex_mode \<Rightarrow> token list \<Rightarrow> string \<Rightarrow> token list option" where
  "lex LIdle ts [] = Some (rev ts)"
| "lex (LWord w) ts [] =
     (case word_token (rev w) of None \<Rightarrow> None | Some t \<Rightarrow> Some (rev (t # ts)))"
| "lex (LStr s) ts [] = None"
| "lex (LEsc s) ts [] = None"
| "lex (LUni s h) ts [] = None"
| "lex LIdle ts (c # cs) =
     (if is_ws c then lex LIdle ts cs
      else case punct c of
             Some p \<Rightarrow> lex LIdle (p # ts) cs
           | None \<Rightarrow>
               if c = CHR 0x22 then lex (LStr []) ts cs
               else if word_char c then lex (LWord [c]) ts cs
               else None)"
| "lex (LWord w) ts (c # cs) =
     (if word_char c then lex (LWord (c # w)) ts cs
      else case word_token (rev w) of
             None \<Rightarrow> None
           | Some t \<Rightarrow>
               if is_ws c then lex LIdle (t # ts) cs
               else case punct c of
                      Some p \<Rightarrow> lex LIdle (p # t # ts) cs
                    | None \<Rightarrow> if c = CHR 0x22 then lex (LStr []) (t # ts) cs else None)"
| "lex (LStr s) ts (c # cs) =
     (if c = CHR 0x22 then lex LIdle (TStr (rev s) # ts) cs
      else if c = CHR 0x5C then lex (LEsc s) ts cs
      else if (of_char c :: nat) < 32 then None
      else lex (LStr (c # s)) ts cs)"
| "lex (LEsc s) ts (c # cs) =
     (if c = CHR ''u'' then lex (LUni s []) ts cs
      else case escape_char c of
             None \<Rightarrow> None
           | Some e \<Rightarrow> lex (LStr (e # s)) ts cs)"
| "lex (LUni s h) ts (c # cs) =
     (case hex_val c of
        None \<Rightarrow> None
      | Some d \<Rightarrow>
          if length h = 3
          then lex (LStr (code_unit_char (foldl (\<lambda>n x. 16 * n + x) 0 (h @ [d])) # s)) ts cs
          else lex (LUni s (h @ [d])) ts cs)"

datatype frame = FArr "jsval list" | FObj "(string \<times> jsval) list" | FKey string

datatype pstate = PValue | PArrStart | PObjStart | PKey | PColon string | PAfter jsval

definition scalar_token :: "token \<Rightarrow> jsval option" where
  "scalar_token t =
     (case t of
        TStr s \<Rightarrow> Some (JStr s)
      | TNum n \<Rightarrow> Some (JNum n)
      | TTrue \<Rightarrow> Some (JBool True)
      | TFalse \<Rightarrow> Some (JBool False)
      | TNull \<Rightarrow> Some JNull
      | _ \<Rightarrow> None)"

fun parse :: "pstate \<Rightarrow> frame list \<Rightarrow> token list \<Rightarrow> jsval option" where
  "parse (PAfter v) [] [] = Some v"
| "parse st stk [] = None"
| "parse PValue stk (t # ts) =
     (if t = TLBrack then parse PArrStart (FArr [] # stk) ts
      else if t = TLBrace then parse PObjStart (FObj [] # stk) ts
      else case scalar_token t of
             Some v \<Rightarrow> parse (PAfter v) stk ts
           | None \<Rightarrow> None)"
| "parse PArrStart stk (t # ts) =
     (if t = TRBrack
      then (case stk of FArr acc # r \<Rightarrow> parse (PAfter (JArr (rev acc))) r ts | _ \<Rightarrow> None)
      else if t = TLBrack then parse PArrStart (FArr [] # stk) ts
      else if t = TLBrace then parse PObjStart (FObj [] # stk) ts
      else case scalar_token t of
             Some v \<Rightarrow> parse (PAfter v) stk ts
           | None \<Rightarrow> None)"
| "parse PObjStart stk (t # ts) =
     (case t of
        TRBrace \<Rightarrow> (case stk of FObj kvs # r \<Rightarrow> parse (PAfter (JObj kvs)) r ts | _ \<Rightarrow> None)
      | TStr k \<Rightarrow> parse (PColon k) stk ts
      | _ \<Rightarrow> None)"
| "parse PKey stk (t # ts) =
     (case t of TStr k \<Rightarrow> parse (PColon k) stk ts | _ \<Rightarrow> None)"
| "parse (PColon k) stk (t # ts) =
     (if t = TColon then parse PValue (FKey k # stk) ts else None)"
| "parse (PAfter v) stk (t # ts) =
     (case stk of
        FArr acc # r \<Rightarrow>
          if t = TComma then parse PValue (FArr (v # acc) # r) ts
          else if t = TRBrack then parse (PAfter (JArr (rev (v # acc)))) r ts
          else None
      | FKey k # FObj kvs # r \<Rightarrow>
          if t = TComma then parse PKey (FObj (obj_define k v kvs) # r) ts
          else if t = TRBrace then parse (PAfter (JObj (obj_define k v kvs))) r ts
          else None
      | _ \<Rightarrow> None)"

definition JSON_parse :: "string \<Rightarrow> jsval option" where
  "JSON_parse text =
     (case lex LIdle [] text of None \<Rightarrow> None | Some ts \<Rightarrow> parse PValue [] ts)"


section \<open>Numbers and values as strings\<close>

function int_to_string :: "int \<Rightarrow> string" where
  \<comment> \<open>the decimal digits of a non-negative integer\<close>
  "int_to_string n =
     (if n < 10 then [char_of (48 + n)]
      else int_to_string (n div 10) @ [char_of (48 + n mod 10)])"
  by pat_completeness auto
termination
  by (relation "measure nat") auto

definition floor_log10 :: "rat \<Rightarrow> int" where
  \<comment> \<open>for \<open>x > 0\<close>: the \<open>f\<close> with \<open>10^f \<le> x < 10^(f+1)\<close>, found next to
      \<open>floor_log2 x * log 2 / log 10\<close>\<close>
  "floor_log10 x =
     (let g = (floor_log2 x * 30103) div 100000
      in if pow10 (g + 1) \<le> x then g + 1
         else if pow10 g \<le> x then g
         else g - 1)"

definition digits_candidate :: "rat \<Rightarrow> int \<Rightarrow> int \<Rightarrow> int option" where
  \<comment> \<open>an \<open>s\<close> of \<open>k\<close> digits with \<open>s * 10^(n - k)\<close> rounding to the double \<open>x\<close>,
      the closest one when there are two\<close>
  "digits_candidate x n k =
     (let sc = pow10 (n - k);
          s1 = \<lfloor>x / sc\<rfloor>;
          s2 = s1 + 1;
          ok1 = (to_double (of_int s1 * sc) = Fin x);
          ok2 = (to_double (of_int s2 * sc) = Fin x)
      in if ok1 \<and> ok2
         then (if x - of_int s1 * sc < of_int s2 * sc - x then Some s1
               else if of_int s2 * sc - x < x - of_int s1 * sc then Some s2
               else if even s1 then Some s1 else Some s2)
         else if ok1 then Some s1
         else if ok2 then Some s2
         else None)"

fun shortest_digits :: "rat \<Rightarrow> int \<Rightarrow> int list \<Rightarrow> int \<times> int" where
  "shortest_digits x n [] = (\<lfloor>x / pow10 (n - 17)\<rfloor>, 17)"
| "shortest_digits x n (k # ks) =
     (case digits_candidate x n k of
        Some s \<Rightarrow> (s, k)
      | None \<Rightarrow> shortest_digits x n ks)"

definition format_digits :: "string \<Rightarrow> int \<Rightarrow> string" where
  \<comment> \<open>the digits \<open>ds\<close> of \<open>s\<close> and the exponent \<open>n\<close>, laid out as \<^verbatim>\<open>Number::toString\<close> does\<close>
  "format_digits ds n =
     (let k = int (length ds)
      in if k \<le> n \<and> n \<le> 21 then ds @ replicate (nat (n - k)) (CHR ''0'')
         else if 0 < n \<and> n \<le> 21 then take (nat n) ds @ ''.'' @ drop (nat n) ds
         else if - 6 < n \<and> n \<le> 0 then ''0.'' @ replicate (nat (- n)) (CHR ''0'') @ ds
         else (if k = 1 then ds else take 1 ds @ ''.'' @ drop 1 ds)
              @ ''e'' @ (if 0 \<le> n - 1 then ''+'' else ''-'') @ int_to_string \<bar>n - 1\<bar>)"

definition pos_to_string :: "rat \<Rightarrow> string" where
  "pos_to_string x =
     (let n0 = floor_log10 x + 1;
          (s, k) = shortest_digits x n0 [1, 2, 3, 4, 5, 6, 7, 8, 9, 10, 11, 12, 13, 14, 15, 16, 17]
      in if s = 10 ^ nat k then format_digits ''1'' (n0 + 1)
         else format_digits (int_to_string s) n0)"

fun Number_toString :: "jsnum \<Rightarrow> string" where
  "Number_toString NaN = ''NaN''"
| "Number_toString PInf = ''Infinity''"
| "Number_toString NInf = ''-Infinity''"
| "Number_toString (Fin x) =
     (if x = 0 then ''0''
      else if x < 0 then ''-'' @ pos_to_string (- x)
      else pos_to_string x)"

definition hex_digit :: "nat \<Rightarrow> char" where
  "hex_digit n = (if n < 10 then char_of (48 + n) else char_of (87 + n))"

definition quote_char :: "char \<Rightarrow> string" where
  "quote_char c =
     (let n = (of_char c :: nat)
      in if c = CHR 0x22 then [CHR 0x5C, CHR 0x22]
         else if c = CHR 0x5C then [CHR 0x5C, CHR 0x5C]
         else if n = 8 then [CHR 0x5C, CHR ''b'']
         else if n = 12 then [CHR 0x5C, CHR ''f'']
         else if n = 10 then [CHR 0x5C, CHR ''n'']
         else if n = 13 then [CHR 0x5C, CHR ''r'']
         else if n = 9 then [CHR 0x5C, CHR ''t'']
         else if n < 32 then [CHR 0x5C, CHR ''u'', CHR ''0'', CHR ''0'',
                              hex_digit (n div 16), hex_digit (n mod 16)]
         else [c])"

definition quote_json :: "string \<Rightarrow> string" where
  "quote_json s = [CHR 0x22] @ concat (map quote_char s) @ [CHR 0x22]"

fun join :: "string \<Rightarrow> string list \<Rightarrow> string" where
  "join sep [] = []"
| "join sep [x] = x"
| "join sep (x # y # ys) = x @ sep @ join sep (y # ys)"

fun JSON_stringify :: "jsval \<Rightarrow> string"
  and stringify_elems :: "jsval list \<Rightarrow> string list"
  and stringify_props :: "(string \<times> jsval) list \<Rightarrow> string list" where
  "JSON_stringify JNull = ''null''"
| "JSON_stringify (JBool b) = (if b then ''true'' else ''false'')"
| "JSON_stringify (JNum n) = (case n of Fin x \<Rightarrow> Number_toString n | _ \<Rightarrow> ''null'')"
| "JSON_stringify (JStr s) = quote_json s"
| "JSON_stringify (JArr vs) = ''['' @ join '','' (stringify_elems vs) @ '']''"
| "JSON_stringify (JObj kvs) = ''{'' @ join '','' (stringify_props kvs) @ ''}''"
| "stringify_elems [] = []"
| "stringify_elems (v # vs) = JSON_stringify v # stringify_elems vs"
| "stringify_props [] = []"
| "stringify_props ((k, v) # kvs) =
     (quote_json k @ '':'' @ JSON_stringify v) # stringify_props kvs"

section \<open>Byte decoders\<close>

definition b64_val :: "char \<Rightarrow> nat option" where
  \<comment> \<open>both the standard and the URL-safe alphabet, as Node's decoder accepts them\<close>
  "b64_val c =
     (let n = (of_char c :: nat)
      in if 65 \<le> n \<and> n \<le> 90 then Some (n - 65)
         else if 97 \<le> n \<and> n \<le> 122 then Some (n - 71)
         else if 48 \<le> n \<and> n \<le> 57 then Some (n + 4)
         else if c = CHR ''+'' \<or> c = CHR ''-'' then Some 62
         else if c = CHR ''/'' \<or> c = CHR ''_'' then Some 63
         else None)"

fun b64_sextets :: "string \<Rightarrow> nat list" where
  \<comment> \<open>characters outside the alphabet are skipped; decoding stops at the first \<open>=\<close>\<close>
  "b64_sextets [] = []"
| "b64_sextets (c # cs) =
     (if c = CHR ''='' then []
      else case b64_val c of
             Some v \<Rightarrow> v # b64_sextets cs
           | None \<Rightarrow> b64_sextets cs)"

fun b64_bytes :: "nat list \<Rightarrow> byte list" where
  "b64_bytes (a # b # c # d # r) =
     of_nat (a * 4 + b div 16) # of_nat ((b mod 16) * 16 + c div 4)
       # of_nat ((c mod 4) * 64 + d) # b64_bytes r"
| "b64_bytes [a, b, c] = [of_nat (a * 4 + b div 16), of_nat ((b mod 16) * 16 + c div 4)]"
| "b64_bytes [a, b] = [of_nat (a * 4 + b div 16)]"
| "b64_bytes _ = []"

definition Buffer_from_base64 :: "string \<Rightarrow> byte list" where
  \<comment> \<open>\<^verbatim>\<open>Buffer.from(s, 'base64')\<close>\<close>
  "Buffer_from_base64 s = b64_bytes (b64_sextets s)"

text \<open>
  UTF-8 decoding with replacement of malformed sequences, as the Encoding Standard
  prescribes: the decoder state is the number of continuation bytes needed and seen, the
  code point so far and the bounds for the next byte.
\<close>

record utf8_state =
  needed :: nat
  seen :: nat
  code_point :: nat
  lower :: nat
  upper :: nat

definition utf8_init :: utf8_state where
  "utf8_init = \<lparr>needed = 0, seen = 0, code_point = 0, lower = 0x80, upper = 0xBF\<rparr>"

definition emit_code_point :: "nat \<Rightarrow> string" where
  \<comment> \<open>the code units of a code point: two of them above the basic plane\<close>
  "emit_code_point cp =
     (if cp < 0x10000 then [code_unit_char cp] else [CHR ''?'', CHR ''?''])"

definition utf8_lead :: "nat \<Rightarrow> string \<times> utf8_state" where
  \<comment> \<open>a byte read when no continuation byte is needed\<close>
  "utf8_lead b =
     (if b \<le> 0x7F then ([char_of b], utf8_init)
      else if 0xC2 \<le> b \<and> b \<le> 0xDF
        then ([], utf8_init\<lparr>needed := 1, code_point := b mod 32\<rparr>)
      else if 0xE0 \<le> b \<and> b \<le> 0xEF
        then ([], utf8_init\<lparr>needed := 2, code_point := b mod 16,
                 lower := (if b = 0xE0 then 0xA0 else 0x80),
                 upper := (if b = 0xED then 0x9F else 0xBF)\<rparr>)
      else if 0xF0 \<le> b \<and> b \<le> 0xF4
        then ([], utf8_init\<lparr>needed := 3, code_point := b mod 8,
                 lower := (if b = 0xF0 then 0x90 else 0x80),
                 upper := (if b = 0xF4 then 0x8F else 0xBF)\<rparr>)
      else (''?'', utf8_init))"

fun utf8_run :: "utf8_state \<Rightarrow> nat list \<Rightarrow> string" where
  "utf8_run st [] = (if needed st = 0 then [] else ''?'')"
| "utf8_run st (b # bs) =
     (if needed st = 0 then
        (case utf8_lead b of (out, st') \<Rightarrow> out @ utf8_run st' bs)
      else if b < lower st \<or> upper st < b then
        (case utf8_lead b of (out, st') \<Rightarrow> ''?'' @ out @ utf8_run st' bs)
      else
        (let cp = code_point st * 64 + b mod 64
         in if seen st + 1 = needed st then emit_code_point cp @ utf8_run utf8_init bs
            else utf8_run (st\<lparr>seen := seen st + 1, code_point := cp,
                               lower := 0x80, upper := 0xBF\<rparr>) bs))"

definition utf8_decode :: "byte list \<Rightarrow> string" where
  "utf8_decode bytes = utf8_run utf8_init (map unat bytes)"

definition Buffer_toString_utf8 :: "byte list \<Rightarrow> string" where
  \<comment> \<open>\<^verbatim>\<open>buffer.toString('utf8')\<close>\<close>
  "Buffer_toString_utf8 bytes = utf8_decode bytes"

definition TextDecoder_decode :: "byte list \<Rightarrow> string" where
  \<comment> \<open>\<^verbatim>\<open>new TextDecoder().decode(bytes)\<close>: UTF-8, a leading byte order mark is dropped\<close>
  "TextDecoder_decode bytes =
     utf8_decode (if take 3 bytes = [0xEF, 0xBB, 0xBF] then drop 3 bytes else bytes)"


definition utf8_encode :: "string \<Rightarrow> byte list" where
  "utf8_encode s =
     concat (map (\<lambda>c. let n = (of_char c :: nat)
                         in if n < 0x80 then [of_nat n]
                            else [of_nat (0xC0 + n div 64), of_nat (0x80 + n mod 64)]) s)"

fun split_bytes :: "byte \<Rightarrow> byte list \<Rightarrow> byte list list" where
  "split_bytes sep [] = [[]]"
| "split_bytes sep (b # bs) =
     (if b = sep then [] # split_bytes sep bs
      else (case split_bytes sep bs of p # ps \<Rightarrow> (b # p) # ps | [] \<Rightarrow> [[b]]))"

fun percent_decode :: "byte list \<Rightarrow> byte list" where
  "percent_decode (p # h # l # bs) =
     (if p = 0x25 then
        (case (hex_val (char_of (unat h)), hex_val (char_of (unat l))) of
           (Some x, Some y) \<Rightarrow> of_nat (16 * x + y) # percent_decode bs
         | _ \<Rightarrow> p # percent_decode (h # l # bs))
      else p # percent_decode (h # l # bs))"
| "percent_decode bs = bs"

definition urlencoded_field :: "byte list \<Rightarrow> string" where
  "urlencoded_field bs =
     utf8_decode (percent_decode (map (\<lambda>b. if b = 0x2B then 0x20 else b) bs))"

definition urlencoded_parse :: "string \<Rightarrow> (string \<times> string) list" where
  \<comment> \<open>the pairs of \<^verbatim>\<open>new URLSearchParams(text)\<close>\<close>
  "urlencoded_parse text =
     (let input = (if text \<noteq> [] \<and> hd text = CHR ''?'' then tl text else text);
          pieces = filter (\<lambda>p. p \<noteq> []) (split_bytes 0x26 (utf8_encode input))
      in map (\<lambda>p. (urlencoded_field (takeWhile (\<lambda>b. b \<noteq> 0x3D) p),
                     urlencoded_field (drop 1 (dropWhile (\<lambda>b. b \<noteq> 0x3D) p)))) pieces)"

definition Object_fromEntries :: "(string \<times> 'v) list \<Rightarrow> (string \<times> 'v) list" where
  "Object_fromEntries entries = fold (\<lambda>(k, v) obj. obj_define k v obj) entries []"

section \<open>Token claims and header redaction\<close>

definition SENSITIVE_HEADERS :: "string list" where
  "SENSITIVE_HEADERS =
     [''authorization'', ''cookie'', ''set-cookie'', ''x-api-key'', ''x-auth-token'',
      ''x-access-token'', ''x-kubiks-key'', ''bearer'', ''proxy-authorization'',
      ''www-authenticate'', ''proxy-authenticate'']"

definition strip_bearer :: "string \<Rightarrow> string" where
  \<comment> \<open>\<^verbatim>\<open>token.replace(/^Bearer\s+/i, '')\<close>\<close>
  "strip_bearer token =
     (if toLowerCase (take 6 token) = ''bearer'' \<and> drop 6 token \<noteq> []
         \<and> is_space (hd (drop 6 token))
      then dropWhile is_space (drop 6 token)
      else token)"

definition url_safe_char :: "char \<Rightarrow> char" where
  \<comment> \<open>\<^verbatim>\<open>.replace(/-/g, '+').replace(/_/g, '/')\<close>, character by character\<close>
  "url_safe_char c = (if c = CHR ''-'' then CHR ''+'' else if c = CHR ''_'' then CHR ''/'' else c)"

definition decode_payload :: "string \<Rightarrow> string" where
  \<comment> \<open>the lines from \<^verbatim>\<open>padded\<close> to \<^verbatim>\<open>decoded\<close>: pad, map to the standard alphabet, decode\<close>
  "decode_payload payload =
     (let padded = payload @ replicate ((4 - length payload mod 4) mod 4) (CHR ''='')
      in Buffer_toString_utf8 (Buffer_from_base64 (map url_safe_char padded)))"

definition parseJWTClaims :: "string \<Rightarrow> jsval" where
  \<comment> \<open>\<open>JNull\<close> is the \<^verbatim>\<open>null\<close> of the length check and of the catch clause\<close>
  "parseJWTClaims token =
     (let cleanToken = strip_bearer token;
          parts = split_on (CHR ''.'') cleanToken
      in if length parts \<noteq> 3 then JNull
         else let payload = parts ! 1;
                  decoded = decode_payload payload
              in case JSON_parse decoded of
                   Some claims \<Rightarrow> claims
                 | None \<Rightarrow> JNull)"

fun Object_entries :: "jsval \<Rightarrow> (string \<times> jsval) list" where
  "Object_entries (JObj kvs) = kvs"
| "Object_entries (JArr vs) = map (\<lambda>(i, v). (int_to_string (int i), v)) (enumerate 0 vs)"
| "Object_entries (JStr s) = map (\<lambda>(i, c). (int_to_string (int i), JStr [c])) (enumerate 0 s)"
| "Object_entries _ = []"

fun is_primitive :: "jsval \<Rightarrow> bool" where
  \<comment> \<open>\<^verbatim>\<open>typeof v\<close> is \<^verbatim>\<open>'string'\<close>, \<^verbatim>\<open>'number'\<close> or \<^verbatim>\<open>'boolean'\<close>\<close>
  "is_primitive (JStr _) = True"
| "is_primitive (JNum _) = True"
| "is_primitive (JBool _) = True"
| "is_primitive _ = False"

fun String_of :: "jsval \<Rightarrow> string" where
  \<comment> \<open>\<^verbatim>\<open>String(v)\<close> on the primitive values\<close>
  "String_of (JStr s) = s"
| "String_of (JNum n) = Number_toString n"
| "String_of (JBool b) = (if b then ''true'' else ''false'')"
| "String_of JNull = ''null''"
| "String_of (JArr vs) = join '','' (map String_of vs)"
| "String_of (JObj _) = ''[object Object]''"

definition add_claim :: "string \<times> jsval \<Rightarrow> (string \<times> string) list \<Rightarrow> (string \<times> string) list" where
  "add_claim e jwtClaims =
     (case e of (claimKey, claimValue) \<Rightarrow>
        if is_primitive claimValue
        then obj_set (''token.'' @ claimKey) (String_of claimValue) jwtClaims
        else jwtClaims)"

definition is_sensitive :: "string \<Rightarrow> bool" where
  \<comment> \<open>\<^verbatim>\<open>SENSITIVE_HEADERS.some(sensitive => lowerKey.includes(sensitive))\<close>\<close>
  "is_sensitive lowerKey = list_ex (str_includes lowerKey) SENSITIVE_HEADERS"

definition redact_step ::
  "string \<Rightarrow> (string \<times> string) list \<times> (string \<times> string) list \<Rightarrow>
     (string \<times> string) list \<times> (string \<times> string) list" where
  \<comment> \<open>the body of the loop over the keys, on the copy and the claims collected so far\<close>
  "redact_step key st =
     (case st of (redactedHeaders, jwtClaims) \<Rightarrow>
        let lowerKey = toLowerCase key
        in if is_sensitive lowerKey
           then let jwtClaims' =
                      (case obj_get redactedHeaders key of
                         Some v \<Rightarrow>
                           if str_includes lowerKey ''authorization'' \<and> v \<noteq> []
                           then (let claims = parseJWTClaims v
                                 in if truthy claims
                                    then fold add_claim (Object_entries claims) jwtClaims
                                    else jwtClaims)
                           else jwtClaims
                       | None \<Rightarrow> jwtClaims)
                in (obj_set key ''[REDACTED]'' redactedHeaders, jwtClaims')
           else (redactedHeaders, jwtClaims))"

definition redactSensitiveHeaders ::
  "(string \<times> string) list \<Rightarrow> (string \<times> string) list \<times> (string \<times> string) list" where
  \<comment> \<open>the result pair is \<open>(redactedHeaders, jwtClaims)\<close>\<close>
  "redactSensitiveHeaders headers = fold redact_step (map fst headers) (headers, [])"

text \<open>
  The same function on a store of header objects (a reference is an index into the
  store): the spread \<^verbatim>\<open>{ ...headers }\<close> allocates a copy and every assignment of the
  loop writes to that copy.
\<close>

type_synonym heap = "(string \<times> string) list list"

definition redactSensitiveHeaders_heap ::
  "heap \<Rightarrow> nat \<Rightarrow> heap \<times> nat \<times> (string \<times> string) list" where
  "redactSensitiveHeaders_heap hp headers =
     (let redactedHeaders = length hp;
          hp1 = hp @ [hp ! headers];
          (hp2, jwtClaims) =
            fold (\<lambda>key (h, claims).
                    case redact_step key (h ! redactedHeaders, claims) of
                      (obj, claims') \<Rightarrow> (h[redactedHeaders := obj], claims'))
                 (map fst (hp1 ! redactedHeaders)) (hp1, [])
      in (hp2, redactedHeaders, jwtClaims))"

section \<open>Body capture\<close>

text \<open>
  The options of an interceptor after the constructor has merged the defaults.
  A field that is \<^verbatim>\<open>undefined\<close> at run time behaves as \<open>False\<close> (for a flag) or as
  \<open>NaN\<close> (for the size: every comparison with it is false).
\<close>

record options =
  optCaptureRequestBody :: bool
  optCaptureResponseBody :: bool
  optCaptureHeaders :: bool
  maxBodySize :: jsnum

record FetchInterceptorOptions =
  givenCaptureRequestBody :: "bool option"
  givenCaptureResponseBody :: "bool option"
  givenCaptureHeaders :: "bool option"
  givenMaxBodySize :: "jsnum option"

definition merge_options :: "FetchInterceptorOptions \<Rightarrow> options" where
  \<comment> \<open>the object literal of the constructor: the defaults, then the given fields\<close>
  "merge_options given =
     \<lparr>optCaptureRequestBody = (case givenCaptureRequestBody given of Some b \<Rightarrow> b | None \<Rightarrow> True),
      optCaptureResponseBody = (case givenCaptureResponseBody given of Some b \<Rightarrow> b | None \<Rightarrow> True),
      optCaptureHeaders = (case givenCaptureHeaders given of Some b \<Rightarrow> b | None \<Rightarrow> True),
      maxBodySize = (case givenMaxBodySize given of Some n \<Rightarrow> n | None \<Rightarrow> Fin 10000)\<rparr>"

text \<open>
  \<^verbatim>\<open>HeadersInit\<close>: a \<^verbatim>\<open>Headers\<close> object, an array of entries, or a record. An entry of
  the array is a pair of strings or, against the declared type but possible at run time,
  the empty array: destructuring it gives \<^verbatim>\<open>undefined\<close> and \<^verbatim>\<open>key.toLowerCase()\<close>
  throws a \<^verbatim>\<open>TypeError\<close> (the message is V8's).
\<close>

datatype header_entry = HPair string string | HEmpty

datatype headers_init =
    HeadersObject "(string \<times> string) list"
  | HeadersArray "header_entry list"
  | HeadersRecord "(string \<times> string) list"

definition toLowerCase_undefined :: string where
  "toLowerCase_undefined =
     ''Cannot read properties of undefined (reading '' @ [CHR 0x27] @ ''toLowerCase''
       @ [CHR 0x27] @ '')''"

fun normalize_entries ::
  "header_entry list \<Rightarrow> (string \<times> string) list \<Rightarrow> exn + (string \<times> string) list" where
  "normalize_entries [] normalized = Inr normalized"
| "normalize_entries (HPair key v # es) normalized =
     normalize_entries es (obj_set (toLowerCase key) v normalized)"
| "normalize_entries (HEmpty # es) normalized = Inl (Error toLowerCase_undefined)"

fun normalizeHeaders :: "headers_init \<Rightarrow> exn + (string \<times> string) list" where
  "normalizeHeaders (HeadersObject hs) =
     Inr (fold (\<lambda>(key, v) normalized. obj_set (toLowerCase key) v normalized) hs [])"
| "normalizeHeaders (HeadersArray es) = normalize_entries es []"
| "normalizeHeaders (HeadersRecord hs) =
     Inr (fold (\<lambda>(key, v) normalized. obj_set (toLowerCase key) v normalized) hs [])"

definition getContentType :: "headers_init option \<Rightarrow> exn + string option" where
  "getContentType headers =
     (case headers of
        None \<Rightarrow> Inr None
      | Some h \<Rightarrow>
          (case normalizeHeaders h of
             Inl e \<Rightarrow> Inl e
           | Inr normalized \<Rightarrow> Inr (obj_get normalized ''content-type'')))"

text \<open>
  The shapes of a request body. A \<^verbatim>\<open>Uint8Array\<close> is a view (offset and length) of a
  buffer. A host object is any other value that passes the test \<^verbatim>\<open>init?.body\<close> (a
  \<^verbatim>\<open>Blob\<close>, a \<^verbatim>\<open>DataView\<close>, a \<^verbatim>\<open>BigInt64Array\<close>, an object of the caller's, \<dots>);
  the program never looks into it, and the only thing done with it later is
  \<^verbatim>\<open>JSON.stringify\<close>, whose behaviour on it the value carries: an exception that it throws
  (the \<^verbatim>\<open>TypeError\<close> for a \<^verbatim>\<open>BigInt\<close> element or for an object with a cycle, whatever a
  \<^verbatim>\<open>toJSON\<close> method throws), or what it returns, \<open>None\<close> being \<^verbatim>\<open>undefined\<close> (a function, a
  symbol, a \<^verbatim>\<open>toJSON\<close> method that returns \<^verbatim>\<open>undefined\<close>).
\<close>

datatype host_object = HostObject "exn + string option"

datatype body =
    FormData
  | URLSearchParams "(string \<times> string) list"
  | ReadableStream
  | ArrayBuffer "byte list"
  | Uint8Array "byte list" nat nat
  | StringBody string
  | OtherBody host_object

text \<open>
  The value a capture returns, one constructor for each kind of \<^verbatim>\<open>return\<close> in the source;
  \<open>outcome_js\<close> gives the JavaScript value that the statement builds.
\<close>

datatype detail = Preview string | Note string

datatype outcome =
    Structured jsval
  | RawText string
  | BinarySkip "string option" jsnum
  | Truncated jsnum detail
  | FormDataSkip
  | StreamSkip
  | ErrorMarker string string
  | Unchanged host_object

fun outcome_js :: "outcome \<Rightarrow> jsval + host_object" where
  "outcome_js (Structured v) = Inl v"
| "outcome_js (RawText text) = Inl (JStr text)"
| "outcome_js (BinarySkip None sz) =
     Inl (JObj [(''_type'', JStr ''Binary''), (''_size'', JNum sz),
                (''_note'', JStr ''Binary data not captured'')])"
| "outcome_js (BinarySkip (Some contentType) sz) =
     Inl (JObj [(''_type'', JStr ''Binary''), (''_contentType'', JStr contentType),
                (''_size'', JNum sz), (''_note'', JStr ''Binary content not captured'')])"
| "outcome_js (Truncated sz (Preview p)) =
     Inl (JObj [(''_truncated'', JBool True), (''_size'', JNum sz), (''_preview'', JStr p)])"
| "outcome_js (Truncated sz (Note n)) =
     Inl (JObj [(''_truncated'', JBool True), (''_size'', JNum sz), (''_note'', JStr n)])"
| "outcome_js FormDataSkip =
     Inl (JObj [(''_type'', JStr ''FormData''),
                (''_note'', JStr ''FormData not captured (likely contains files)'')])"
| "outcome_js StreamSkip =
     Inl (JObj [(''_type'', JStr ''ReadableStream''), (''_note'', JStr ''Stream not captured'')])"
| "outcome_js (ErrorMarker err msg) =
     Inl (JObj [(''_error'', JStr err), (''_message'', JStr msg)])"
| "outcome_js (Unchanged obj) = Inr obj"

definition falsy_string :: "string option \<Rightarrow> bool" where
  \<comment> \<open>\<^verbatim>\<open>!s\<close> for a string or \<^verbatim>\<open>undefined\<close>\<close>
  "falsy_string s = (case s of None \<Rightarrow> True | Some t \<Rightarrow> t = [])"

definition parse_or_text :: "string \<Rightarrow> outcome" where
  \<comment> \<open>\<^verbatim>\<open>try { return JSON.parse(text); } catch { return text; }\<close>\<close>
  "parse_or_text text =
     (case JSON_parse text of Some v \<Rightarrow> Structured v | None \<Rightarrow> RawText text)"

definition parseBodyText_try :: "string \<Rightarrow> string option \<Rightarrow> outcome option" where
  \<comment> \<open>the outer \<^verbatim>\<open>try\<close> block; \<open>None\<close> when it throws\<close>
  "parseBodyText_try text contentType =
     (if falsy_string contentType then Some (parse_or_text text)
      else let lowerContentType = toLowerCase (the contentType)
           in if str_includes lowerContentType ''application/json''
              then map_option Structured (JSON_parse text)
              else if str_includes lowerContentType ''application/x-www-form-urlencoded''
              then Some (Structured (JObj (map (\<lambda>(k, v). (k, JStr v))
                                            (Object_fromEntries (urlencoded_parse text)))))
              else if str_includes lowerContentType ''text/''
              then Some (RawText text)
              else Some (parse_or_text text))"

definition parseBodyText :: "string \<Rightarrow> string option \<Rightarrow> outcome" where
  \<comment> \<open>the outer \<^verbatim>\<open>catch (error) { return text; }\<close>\<close>
  "parseBodyText text contentType =
     (case parseBodyText_try text contentType of
        Some v \<Rightarrow> v
      | None \<Rightarrow> RawText text)"

definition binaryTypes :: "string list" where
  \<comment> \<open>the constant of that name local to \<^verbatim>\<open>isBinaryContentType\<close>\<close>
  "binaryTypes = [''image/'', ''video/'', ''audio/'', ''application/octet-stream'',
                  ''application/pdf'', ''application/zip'', ''multipart/form-data'']"

definition isBinaryContentType :: "string \<Rightarrow> bool" where
  "isBinaryContentType contentType =
     (let lowerContentType = toLowerCase contentType
      in list_ex (str_includes lowerContentType) binaryTypes)"

definition js_length :: "'a list \<Rightarrow> jsnum" where
  \<comment> \<open>\<^verbatim>\<open>.length\<close> as a number\<close>
  "js_length xs = Fin (of_nat (length xs))"

definition captureRequestBody_try ::
  "options \<Rightarrow> body \<Rightarrow> headers_init option \<Rightarrow> exn + outcome" where
  \<comment> \<open>the \<^verbatim>\<open>try\<close> block\<close>
  "captureRequestBody_try opts b headers =
     (case getContentType headers of
        Inl e \<Rightarrow> Inl e
      | Inr contentType \<Rightarrow>
          (case b of
             FormData \<Rightarrow> Inr FormDataSkip
           | URLSearchParams ps \<Rightarrow>
               Inr (Structured (JObj (map (\<lambda>(k, v). (k, JStr v))
                                        (fold (\<lambda>(key, v) obj. obj_set key v obj) ps []))))
           | ReadableStream \<Rightarrow> Inr StreamSkip
           | ArrayBuffer bytes \<Rightarrow>
               if isBinary bytes then Inr (BinarySkip None (js_length bytes))
               else Inr (parseBodyText (TextDecoder_decode bytes) contentType)
           | Uint8Array buffer byteOffset len \<Rightarrow>
               \<comment> \<open>\<^verbatim>\<open>new Uint8Array(body.buffer)\<close>: the whole underlying buffer\<close>
               if isBinary buffer then Inr (BinarySkip None (js_length buffer))
               else Inr (parseBodyText (TextDecoder_decode buffer) contentType)
           | StringBody text \<Rightarrow>
               if js_gt (js_length text) (maxBodySize opts)
               then Inr (Truncated (js_length text) (Preview (substring text 0 100)))
               else Inr (parseBodyText text contentType)
           | OtherBody obj \<Rightarrow> Inr (Unchanged obj)))"

definition captureRequestBody ::
  "options \<Rightarrow> body \<Rightarrow> headers_init option \<Rightarrow> exn + outcome" where
  \<comment> \<open>the settled promise: \<open>Inl\<close> a rejection, \<open>Inr\<close> the value\<close>
  "captureRequestBody opts b headers =
     (case captureRequestBody_try opts b headers of
        Inr v \<Rightarrow> Inr v
      | Inl e \<Rightarrow> Inr (ErrorMarker ''Failed to capture request body'' (error_message e)))"

text \<open>
  A response: status line, \<^verbatim>\<open>Headers\<close> (one entry for each lower-case name), the result
  of reading the body as text (the read may fail) and whether the body has been read.
\<close>

record response =
  status :: int
  statusText :: string
  resp_headers :: "(string \<times> string) list"
  body_text :: "exn + string"
  bodyUsed :: bool

definition Headers_get :: "(string \<times> string) list \<Rightarrow> string \<Rightarrow> string option" where
  \<comment> \<open>\<^verbatim>\<open>headers.get(name)\<close>; \<open>None\<close> is \<^verbatim>\<open>null\<close>\<close>
  "Headers_get hs name = map_of (map (\<lambda>(k, v). (toLowerCase k, v)) hs) (toLowerCase name)"

definition response_text :: "response \<Rightarrow> (exn + string) \<times> response" where
  \<comment> \<open>\<^verbatim>\<open>await response.text()\<close>: the result and the response afterwards\<close>
  "response_text r =
     (if bodyUsed r then (Inl (Error ''Body is unusable: Body has already been read''), r)
      else (body_text r, r\<lparr>bodyUsed := True\<rparr>))"

definition response_clone :: "response \<Rightarrow> exn + response" where
  "response_clone r =
     (if bodyUsed r then Inl (Error ''Response.clone: Body has already been consumed.'')
      else Inr r)"

definition or_else :: "string option \<Rightarrow> string \<Rightarrow> string" where
  \<comment> \<open>\<^verbatim>\<open>s || d\<close> for a string or \<^verbatim>\<open>null\<close>\<close>
  "or_else s d = (case s of None \<Rightarrow> d | Some t \<Rightarrow> if t = [] then d else t)"

definition parseInt10 :: "string \<Rightarrow> jsnum" where
  \<comment> \<open>\<^verbatim>\<open>parseInt(s, 10)\<close>\<close>
  "parseInt10 s =
     (let t = dropWhile is_space s;
          neg = (t \<noteq> [] \<and> hd t = CHR ''-'');
          u = (if t \<noteq> [] \<and> (hd t = CHR ''-'' \<or> hd t = CHR ''+'') then tl t else t);
          ds = takeWhile is_digit u
      in if ds = [] then NaN
         else to_double (of_int (if neg then - digits_val ds else digits_val ds)))"

definition captureResponseBody_try :: "options \<Rightarrow> response \<Rightarrow> (exn + outcome) \<times> response" where
  \<comment> \<open>the \<^verbatim>\<open>try\<close> block, with the response as the block leaves it\<close>
  "captureResponseBody_try opts r =
     (let contentType = or_else (Headers_get (resp_headers r) ''content-type'') [];
          contentLength = parseInt10 (or_else (Headers_get (resp_headers r) ''content-length'') ''0'')
      in if js_gt contentLength (maxBodySize opts)
         then (Inr (Truncated contentLength
                      (Note (''Response too large ('' @ Number_toString contentLength @ '' bytes)''))), r)
         else if isBinaryContentType contentType
         then (Inr (BinarySkip (Some contentType) contentLength), r)
         else (case response_text r of
                 (Inl e, r') \<Rightarrow> (Inl e, r')
               | (Inr text, r') \<Rightarrow>
                   if js_gt (js_length text) (maxBodySize opts)
                   then (Inr (Truncated (js_length text) (Preview (substring text 0 100))), r')
                   else (Inr (parseBodyText text (Some contentType)), r')))"

definition captureResponseBody :: "options \<Rightarrow> response \<Rightarrow> (exn + outcome) \<times> response" where
  "captureResponseBody opts r =
     (case captureResponseBody_try opts r of
        (Inr v, r') \<Rightarrow> (Inr v, r')
      | (Inl e, r') \<Rightarrow>
          (Inr (ErrorMarker ''Failed to capture response body'' (error_message e)), r'))"



section \<open>The intercepting function\<close>

text \<open>
  What the module takes from outside: \<^verbatim>\<open>new URL(url)\<close> (the protocol and the host of a
  valid URL, \<open>None\<close> for the \<^verbatim>\<open>TypeError\<close> of an invalid one) and
  \<^verbatim>\<open>getPackageVersion()\<close> of \<^verbatim>\<open>./version.js\<close>.
\<close>

record platform =
  parseURL :: "string \<Rightarrow> (string \<times> string) option"
  packageVersion :: string

datatype fetch_input = InputString string | InputURL string | InputRequest string

fun url_of :: "fetch_input \<Rightarrow> string" where
  "url_of (InputString s) = s"
| "url_of (InputURL href) = href"
| "url_of (InputRequest url) = url"

record init =
  init_method :: "string option"
  init_headers :: "headers_init option"
  init_body :: "body option"

text \<open>
  The span is observed through the calls made on it, in order. A function that can stand
  in \<^verbatim>\<open>globalThis.fetch\<close> yields the span calls it makes and the settled promise.
\<close>

datatype span_status = OK | ERROR string

text \<open>
  The value of a call of \<^verbatim>\<open>setAttribute\<close> is \<open>None\<close> when the argument is \<^verbatim>\<open>undefined\<close>.
\<close>

datatype span_event =
    StartSpan string "(string \<times> jsval) list"
  | SetAttributes "(string \<times> jsval) list"
  | SetAttribute string "jsval option"
  | SetStatus span_status
  | EndSpan

type_synonym 'a traced = "span_event list \<times> (exn + 'a)"

type_synonym fetch_fn = "fetch_input \<Rightarrow> init option \<Rightarrow> response traced"

definition and_then :: "'a traced \<Rightarrow> ('a \<Rightarrow> 'b traced) \<Rightarrow> 'b traced" where
  \<comment> \<open>one statement after another: an exception skips what follows\<close>
  "and_then m f =
     (case m of
        (ev, Inl e) \<Rightarrow> (ev, Inl e)
      | (ev, Inr a) \<Rightarrow> (case f a of (ev', r) \<Rightarrow> (ev @ ev', r)))"

definition flatten_headers :: "string \<Rightarrow> (string \<times> string) list \<Rightarrow> (string \<times> jsval) list" where
  \<comment> \<open>\<^verbatim>\<open>flatten({ [side]: { headers: hs } })\<close> of the package \<^verbatim>\<open>flat\<close>: dotted keys for
      the leaves, an empty object being a leaf\<close>
  "flatten_headers side hs =
     (if hs = [] then [(side @ ''.headers'', JObj [])]
      else fold (\<lambda>(k, v) out. obj_set (side @ ''.headers.'' @ k) (JStr v) out) hs [])"

definition header_events :: "string \<Rightarrow> (string \<times> string) list \<Rightarrow> span_event list" where
  "header_events side hs =
     (case redactSensitiveHeaders hs of
        (redactedHeaders, jwtClaims) \<Rightarrow>
          SetAttributes (flatten_headers side redactedHeaders)
            # (if jwtClaims \<noteq> [] then [SetAttributes (map (\<lambda>(k, v). (k, JStr v)) jwtClaims)]
               else []))"

fun body_truthy :: "body \<Rightarrow> bool" where
  \<comment> \<open>the test \<^verbatim>\<open>init?.body\<close> on a body that is present\<close>
  "body_truthy (StringBody s) = (s \<noteq> [])"
| "body_truthy _ = True"

definition outcome_truthy :: "outcome \<Rightarrow> bool" where
  \<comment> \<open>the test \<^verbatim>\<open>if (bodyData)\<close>\<close>
  "outcome_truthy bodyData = (case outcome_js bodyData of Inl v \<Rightarrow> truthy v | Inr obj \<Rightarrow> True)"

definition attribute_text :: "outcome \<Rightarrow> exn + string option" where
  \<comment> \<open>\<^verbatim>\<open>typeof bodyData === 'string' ? bodyData : JSON.stringify(bodyData)\<close>: \<open>Inl\<close> when
      \<^verbatim>\<open>JSON.stringify\<close> throws, \<open>Inr None\<close> when it returns \<^verbatim>\<open>undefined\<close>\<close>
  "attribute_text bodyData =
     (case outcome_js bodyData of
        Inl (JStr s) \<Rightarrow> Inr (Some s)
      | Inl v \<Rightarrow> Inr (Some (JSON_stringify v))
      | Inr (HostObject stringified) \<Rightarrow> stringified)"

definition body_attribute :: "string \<Rightarrow> outcome \<Rightarrow> unit traced" where
  \<comment> \<open>\<^verbatim>\<open>if (bodyData) { span.setAttribute(name, \<dots>); }\<close>: the argument is evaluated before
      the call, so that an exception of \<^verbatim>\<open>JSON.stringify\<close> leaves the span without the call\<close>
  "body_attribute name bodyData =
     (if outcome_truthy bodyData then
        (case attribute_text bodyData of
           Inl e \<Rightarrow> ([], Inl e)
         | Inr v \<Rightarrow> ([SetAttribute name (map_option JStr v)], Inr ()))
      else ([], Inr ()))"

definition request_headers_step :: "options \<Rightarrow> init option \<Rightarrow> unit traced" where
  "request_headers_step opts i =
     (case (if optCaptureHeaders opts then Option.bind i init_headers else None) of
        None \<Rightarrow> ([], Inr ())
      | Some h \<Rightarrow>
          (case normalizeHeaders h of
             Inl e \<Rightarrow> ([], Inl e)
           | Inr hs \<Rightarrow> (header_events ''request'' hs, Inr ())))"

definition request_body_step :: "options \<Rightarrow> init option \<Rightarrow> unit traced" where
  "request_body_step opts i =
     (case (if optCaptureRequestBody opts then Option.bind i init_body else None) of
        None \<Rightarrow> ([], Inr ())
      | Some b \<Rightarrow>
          if body_truthy b then
            (case captureRequestBody opts b (Option.bind i init_headers) of
               Inl e \<Rightarrow> ([], Inl e)
             | Inr bodyData \<Rightarrow> body_attribute ''request.body'' bodyData)
          else ([], Inr ()))"

definition response_headers_step :: "options \<Rightarrow> response \<Rightarrow> unit traced" where
  "response_headers_step opts r =
     (if optCaptureHeaders opts
      then (header_events ''response''
              (fold (\<lambda>(key, v) responseHeaders. obj_set (toLowerCase key) v responseHeaders)
                 (resp_headers r) []), Inr ())
      else ([], Inr ()))"

definition response_body_step :: "options \<Rightarrow> response \<Rightarrow> unit traced" where
  "response_body_step opts r =
     (if optCaptureResponseBody opts then
        (case response_clone r of
           Inl e \<Rightarrow> ([], Inl e)
         | Inr responseClone \<Rightarrow>
             (case fst (captureResponseBody opts responseClone) of
                Inl e \<Rightarrow> ([], Inl e)
              | Inr bodyData \<Rightarrow> body_attribute ''response.body'' bodyData))
      else ([], Inr ()))"

definition span_try :: "options \<Rightarrow> fetch_fn \<Rightarrow> fetch_input \<Rightarrow> init option \<Rightarrow> response traced" where
  \<comment> \<open>the \<^verbatim>\<open>try\<close> block of the span callback\<close>
  "span_try opts originalFetch input i =
     and_then (request_headers_step opts i) (\<lambda>_.
     and_then (request_body_step opts i) (\<lambda>_.
     and_then (originalFetch input i) (\<lambda>response.
     and_then ([SetAttributes [(''http.status_code'', JNum (Fin (of_int (status response)))),
                               (''http.status_text'', JStr (statusText response))]], Inr ()) (\<lambda>_.
     and_then (response_headers_step opts response) (\<lambda>_.
     and_then (response_body_step opts response) (\<lambda>_.
     ([SetStatus OK], Inr response)))))))"

definition span_callback :: "options \<Rightarrow> fetch_fn \<Rightarrow> fetch_input \<Rightarrow> init option \<Rightarrow> response traced" where
  \<comment> \<open>\<^verbatim>\<open>try\<close>, \<^verbatim>\<open>catch\<close> (status and rethrow) and \<^verbatim>\<open>finally\<close> (end of the span)\<close>
  "span_callback opts originalFetch input i =
     (case span_try opts originalFetch input i of
        (ev, Inr response) \<Rightarrow> (ev @ [EndSpan], Inr response)
      | (ev, Inl error) \<Rightarrow>
          (ev @ [SetStatus (ERROR (error_message error)), EndSpan], Inl error))"


definition span_attributes :: "platform \<Rightarrow> string \<Rightarrow> string \<Rightarrow> string \<Rightarrow> string \<Rightarrow> (string \<times> jsval) list" where
  \<comment> \<open>the attributes the span starts with\<close>
  "span_attributes pf method url protocol host =
     [(''http.method'', JStr method),
      (''http.url'', JStr url),
      (''http.scheme'', JStr (butlast protocol)),
      (''http.host'', JStr host),
      (''kubiks.otel.source'', JStr ''otel-nextjs''),
      (''kubiks.otel.version'', JStr (packageVersion pf)),
      (''kubiks.otel.instrumentation'', JStr ''fetch-interceptor'')]"

definition interceptFetch :: "platform \<Rightarrow> options \<Rightarrow> fetch_fn \<Rightarrow> fetch_fn" where
  \<comment> \<open>the function that \<^verbatim>\<open>interceptFetch\<close> assigns to \<^verbatim>\<open>globalThis.fetch\<close>, for an
      interceptor with these options and this \<^verbatim>\<open>originalFetch\<close>\<close>
  "interceptFetch pf opts originalFetch input i =
     (let url = url_of input;
          method = or_else (Option.bind i init_method) ''GET''
      in case parseURL pf url of
           None \<Rightarrow> ([], Inl (Error ''Invalid URL''))
         | Some (protocol, host) \<Rightarrow>
             (case span_callback opts originalFetch input i of
                (ev, r) \<Rightarrow>
                  (StartSpan (''fetch '' @ method) (span_attributes pf method url protocol host)
                     # ev, r)))"

section \<open>Installing and restoring\<close>

text \<open>
  A value of \<^verbatim>\<open>globalThis.fetch\<close> is either a function this module did not make (the
  transport of the run time, or anyone else's, told apart by a number) or the function made
  by \<^verbatim>\<open>interceptFetch\<close> for an interceptor with given options and \<^verbatim>\<open>originalFetch\<close>.
  The process-wide state is that slot and the module variable \<^verbatim>\<open>interceptorInstance\<close>.
\<close>

datatype fetchfn = Transport nat | Intercepting options fetchfn

record FetchInterceptor =
  its_options :: options
  originalFetch :: fetchfn

record global =
  fetch :: fetchfn
  interceptorInstance :: "FetchInterceptor option"

definition new_FetchInterceptor :: "FetchInterceptorOptions \<Rightarrow> global \<Rightarrow> FetchInterceptor \<times> global" where
  \<comment> \<open>the constructor: merge the options, save the slot, assign the wrapper\<close>
  "new_FetchInterceptor given g =
     (let self = \<lparr>its_options = merge_options given, originalFetch = fetch g\<rparr>
      in (self, g\<lparr>fetch := Intercepting (its_options self) (originalFetch self)\<rparr>))"

definition restore :: "FetchInterceptor \<Rightarrow> global \<Rightarrow> global" where
  "restore self g = g\<lparr>fetch := originalFetch self\<rparr>"

definition enableFetchBodyCapture :: "FetchInterceptorOptions \<Rightarrow> global \<Rightarrow> FetchInterceptor \<times> global" where
  "enableFetchBodyCapture given g =
     (let g1 = (case interceptorInstance g of Some inst \<Rightarrow> restore inst g | None \<Rightarrow> g);
          (self, g2) = new_FetchInterceptor given g1
      in (self, g2\<lparr>interceptorInstance := Some self\<rparr>))"

definition disableFetchBodyCapture :: "global \<Rightarrow> global" where
  "disableFetchBodyCapture g =
     (case interceptorInstance g of
        Some inst \<Rightarrow> (restore inst g)\<lparr>interceptorInstance := None\<rparr>
      | None \<Rightarrow> g)"

primrec call_fetch ::
  "platform \<Rightarrow> (nat \<Rightarrow> fetch_input \<Rightarrow> init option \<Rightarrow> exn + response) \<Rightarrow> fetchfn \<Rightarrow> fetch_fn" where
  \<comment> \<open>calling what the slot holds; a transport makes no span calls\<close>
  "call_fetch pf transport (Transport n) = (\<lambda>input i. ([], transport n input i))"
| "call_fetch pf transport (Intercepting opts original) =
     interceptFetch pf opts (call_fetch pf transport original)"

text \<open>
  The operations a program can perform on this state, and the handles it holds: every
  interceptor returned by \<^verbatim>\<open>enableFetchBodyCapture\<close> so far.
\<close>

datatype operation = Enable FetchInterceptorOptions | Disable | Restore nat

fun run_operation :: "operation \<Rightarrow> global \<times> FetchInterceptor list \<Rightarrow> global \<times> FetchInterceptor list" where
  "run_operation (Enable given) (g, handles) =
     (case enableFetchBodyCapture given g of (self, g') \<Rightarrow> (g', handles @ [self]))"
| "run_operation Disable (g, handles) = (disableFetchBodyCapture g, handles)"
| "run_operation (Restore n) (g, handles) =
     (if n < length handles then (restore (handles ! n) g, handles) else (g, handles))"

definition run_operations ::
  "operation list \<Rightarrow> global \<times> FetchInterceptor list \<Rightarrow> global \<times> FetchInterceptor list" where
  "run_operations ops st = fold run_operation ops st"

text \<open>
  The states in which interception is not compounded over transport \<open>n\<close>.
\<close>

definition well_layered :: "nat \<Rightarrow> global \<times> FetchInterceptor list \<Rightarrow> bool" where
  \<comment> \<open>at most one layer of interception over transport \<open>n\<close>, which every handle has saved\<close>
  "well_layered n st =
     (case st of (g, handles) \<Rightarrow>
        list_all (\<lambda>h. originalFetch h = Transport n) handles
        \<and> (case fetch g of Transport m \<Rightarrow> m = n | Intercepting opts original \<Rightarrow> original = Transport n)
        \<and> (case interceptorInstance g of
             None \<Rightarrow> fetch g = Transport n
           | Some inst \<Rightarrow> originalFetch inst = Transport n))"

section \<open>Example inputs\<close>

definition defaults :: FetchInterceptorOptions where
  \<comment> \<open>no option given: \<^verbatim>\<open>new FetchInterceptor()\<close>\<close>
  "defaults = \<lparr>givenCaptureRequestBody = None, givenCaptureResponseBody = None,
     givenCaptureHeaders = None, givenMaxBodySize = None\<rparr>"

definition json_headers :: headers_init where
  "json_headers = HeadersRecord [(''Content-Type'', ''application/json'')]"

definition bad_json_response :: response where
  "bad_json_response = \<lparr>status = 200, statusText = ''OK'',
     resp_headers = [(''content-type'', ''application/json'')],
     body_text = Inr ''{bad'', bodyUsed = False\<rparr>"



definition jwt_payload :: string where
  \<comment> \<open>base64url of the claims \<^verbatim>\<open>{"sub":"u1","admin":true}\<close>\<close>
  "jwt_payload = ''eyJzdWIiOiJ1MSIsImFkbWluIjp0cnVlfQ''"


definition bearer_token :: string where
  \<comment> \<open>the header segment is base64url of \<^verbatim>\<open>{"alg":"HS256"}\<close>\<close>
  "bearer_token = ''Bearer eyJhbGciOiJIUzI1NiJ9.'' @ jwt_payload @ ''.c2ln''"

definition example_heap :: heap where
  "example_heap =
     [[(''Authorization'', bearer_token), (''Content-Type'', ''application/json''),
       (''X-Api-Key'', ''k1'')]]"











definition initial_global :: global where
  \<comment> \<open>the process before any interceptor: the transport of the run time in the slot\<close>
  "initial_global = \<lparr>fetch = Transport 0, interceptorInstance = None\<rparr>"

definition first_handle :: FetchInterceptor where
  \<comment> \<open>what the first \<^verbatim>\<open>enableFetchBodyCapture()\<close> returns in \<open>initial_global\<close>\<close>
  "first_handle = \<lparr>its_options = merge_options defaults, originalFetch = Transport 0\<rparr>"

definition installed_global :: global where
  \<comment> \<open>the state after that call\<close>
  "installed_global =
     \<lparr>fetch = Intercepting (merge_options defaults) (Transport 0),
      interceptorInstance = Some first_handle\<rparr>"

section \<open>Properties\<close>

subsection \<open>Rounding in the range of the byte ratio\<close>

declare bit_length.simps [simp del]

lemma bit_length_nonneg: "0 \<le> bit_length a"
  by (induction a rule: bit_length.induct) (simp add: bit_length.simps)

lemma bit_length_pos: "0 < a \<Longrightarrow> 1 \<le> bit_length a"
  using bit_length_nonneg [of "a div 2"] by (simp add: bit_length.simps [of a])

lemma bit_length_bounds:
  "0 < a \<Longrightarrow> 2 ^ nat (bit_length a - 1) \<le> a \<and> a < 2 ^ nat (bit_length a)"
proof (induction a rule: bit_length.induct)
  case (1 a)
  show ?case
  proof (cases "a div 2 \<le> 0")
    case True
    with 1 have "a = 1" by linarith
    then show ?thesis by (simp add: bit_length.simps [of 1] bit_length.simps [of 0])
  next
    case False
    then have h: "0 < a div 2" by simp
    with 1 have ih: "2 ^ nat (bit_length (a div 2) - 1) \<le> a div 2"
      "a div 2 < 2 ^ nat (bit_length (a div 2))" by auto
    have b: "bit_length a = 1 + bit_length (a div 2)"
      using 1(2) by (simp add: bit_length.simps [of a])
    have p: "1 \<le> bit_length (a div 2)" using h by (rule bit_length_pos)
    have e1: "nat (bit_length a - 1) = Suc (nat (bit_length (a div 2) - 1))"
      using b p by simp
    have e2: "nat (bit_length a) = Suc (nat (bit_length (a div 2)))"
      using b p by simp
    from ih show ?thesis unfolding e1 e2 by simp linarith
  qed
qed


lemma pow2_pos: "0 < pow2 e"
  by (simp add: pow2_def)

lemma pow2_add: "pow2 (a + b) = pow2 a * pow2 b"
proof -
  have "pow2 e = 2 powi e" for e
    by (simp add: pow2_def power_int_def field_simps)
  then show ?thesis by (simp add: power_int_add)
qed

lemma pow2_mono: "a \<le> b \<Longrightarrow> pow2 a \<le> pow2 b"
proof -
  have "pow2 e = 2 powi e" for e
    by (simp add: pow2_def power_int_def field_simps)
  then show "a \<le> b \<Longrightarrow> pow2 a \<le> pow2 b" by (simp add: power_int_increasing)
qed

lemma floor_log2_bounds:
  assumes "0 < x"
  shows "pow2 (floor_log2 x) \<le> x \<and> x < pow2 (floor_log2 x + 1)"
proof -
  obtain a b where q: "quotient_of x = (a, b)" by (cases "quotient_of x")
  then have b: "0 < b" and x: "x = of_int a / of_int b"
    using quotient_of_denom_pos quotient_of_div by auto
  with assms have a: "0 < a" by (simp add: zero_less_divide_iff)
  define la where "la = bit_length a"
  define lb where "lb = bit_length b"
  have la: "2 ^ nat (la - 1) \<le> a" "a < 2 ^ nat la" "1 \<le> la"
    using bit_length_bounds [OF a] bit_length_pos [OF a] by (simp_all add: la_def)
  have lb: "2 ^ nat (lb - 1) \<le> b" "b < 2 ^ nat lb" "1 \<le> lb"
    using bit_length_bounds [OF b] bit_length_pos [OF b] by (simp_all add: lb_def)
  have ra: "pow2 (la - 1) \<le> of_int a" "of_int a < pow2 la"
    using la by (simp_all add: pow2_def)
  have rb: "pow2 (lb - 1) \<le> of_int b" "of_int b < pow2 lb"
    using lb by (simp_all add: pow2_def)
  have bpos: "(0::rat) < of_int b" using b by simp
  have lo: "pow2 (la - lb - 1) < x"
  proof -
    have "pow2 (la - lb - 1) * of_int b < pow2 (la - lb - 1) * pow2 lb"
      using rb(2) pow2_pos by simp
    also have "\<dots> = pow2 (la - 1)" by (simp add: pow2_add [symmetric])
    also have "\<dots> \<le> of_int a" by (rule ra)
    finally show ?thesis using bpos by (simp add: x pos_less_divide_eq)
  qed
  have hi: "x < pow2 (la - lb + 1)"
  proof -
    have "of_int a < pow2 la" by (rule ra)
    also have "\<dots> = pow2 (la - lb + 1) * pow2 (lb - 1)" by (simp add: pow2_add [symmetric])
    also have "\<dots> \<le> pow2 (la - lb + 1) * of_int b"
      using rb(1) pow2_pos by simp
    finally show ?thesis using bpos by (simp add: x pos_divide_less_eq)
  qed
  show ?thesis
    using lo hi by (simp add: floor_log2_def q la_def [symmetric] lb_def [symmetric] Let_def)
qed

lemma floor_log2_unique:
  assumes "pow2 k \<le> x" "x < pow2 (k + 1)"
  shows "floor_log2 x = k"
proof -
  have "0 < x" using assms(1) pow2_pos [of k] by simp
  then have b: "pow2 (floor_log2 x) \<le> x" "x < pow2 (floor_log2 x + 1)"
    using floor_log2_bounds by auto
  have "\<not> floor_log2 x < k"
  proof
    assume "floor_log2 x < k"
    then have "pow2 (floor_log2 x + 1) \<le> pow2 k" by (intro pow2_mono) simp
    with b(2) assms(1) show False by simp
  qed
  moreover have "\<not> k < floor_log2 x"
  proof
    assume "k < floor_log2 x"
    then have "pow2 (k + 1) \<le> pow2 (floor_log2 x)" by (intro pow2_mono) simp
    with b(1) assms(2) show False by simp
  qed
  ultimately show ?thesis by simp
qed


lemma round_half_even_le: "q < of_int N + 1 / 2 \<Longrightarrow> round_half_even q \<le> N"
  unfolding round_half_even_def Let_def by (auto split: if_splits) linarith+

lemma round_half_even_ge: "of_int N \<le> q \<Longrightarrow> N \<le> round_half_even q"
  unfolding round_half_even_def Let_def by (auto split: if_splits simp: le_floor_iff) linarith+

lemma round_half_even_gt: "of_int N + 1 / 2 < q \<Longrightarrow> N + 1 \<le> round_half_even q"
  unfolding round_half_even_def Let_def by (auto split: if_splits) linarith+




lemma pow2_52: "pow2 52 = of_int (2 ^ 52)" and pow2_53: "pow2 53 = of_int (2 ^ 53)"
  by (simp_all add: pow2_def)

lemma round_half_even_binade:
  assumes "pow2 k \<le> x" "x < pow2 (k + 1)"
  defines "u \<equiv> pow2 (k - 52)"
  shows "pow2 k \<le> of_int (round_half_even (x / u)) * u"
    and "of_int (round_half_even (x / u)) * u \<le> pow2 (k + 1)"
proof -
  have u: "0 < u" by (simp add: u_def pow2_pos)
  have k: "pow2 k = pow2 52 * u" "pow2 (k + 1) = pow2 53 * u"
    by (simp_all add: u_def pow2_add [symmetric] add.commute)
  have "pow2 52 \<le> x / u"
    using assms(1) u unfolding k by (simp add: pos_le_divide_eq)
  then have "2 ^ 52 \<le> round_half_even (x / u)"
    unfolding pow2_52 by (rule round_half_even_ge)
  then have "(of_int (2 ^ 52) :: rat) \<le> of_int (round_half_even (x / u))"
    by (simp only: of_int_le_iff)
  then have "pow2 52 * u \<le> of_int (round_half_even (x / u)) * u"
    unfolding pow2_52 using u by (simp only: mult_le_cancel_right_pos)
  then show "pow2 k \<le> of_int (round_half_even (x / u)) * u" by (simp only: k)
  have "x / u < pow2 53"
    using assms(2) u unfolding k by (simp add: pos_divide_less_eq)
  then have "x / u < of_int (2 ^ 53) + 1 / 2" unfolding pow2_53 by linarith
  then have "round_half_even (x / u) \<le> 2 ^ 53" by (rule round_half_even_le)
  then have "(of_int (round_half_even (x / u)) :: rat) \<le> of_int (2 ^ 53)"
    by (simp only: of_int_le_iff)
  then have "of_int (round_half_even (x / u)) * u \<le> pow2 53 * u"
    unfolding pow2_53 using u by (simp only: mult_le_cancel_right_pos)
  then show "of_int (round_half_even (x / u)) * u \<le> pow2 (k + 1)" by (simp only: k)
qed

lemma round_pos_normal:
  assumes "pow2 k \<le> x" "x < pow2 (k + 1)" "- 1022 \<le> k" "k \<le> 1022"
  shows "round_pos x = Fin (of_int (round_half_even (x / pow2 (k - 52))) * pow2 (k - 52))"
proof -
  have fl: "floor_log2 x = k" using assms(1,2) by (rule floor_log2_unique)
  let ?r = "of_int (round_half_even (x / pow2 (k - 52))) * pow2 (k - 52)"
  have "?r \<le> pow2 (k + 1)" using assms(1,2) by (rule round_half_even_binade)
  also have "\<dots> \<le> pow2 1023" using assms(4) by (intro pow2_mono) simp
  also have "\<dots> < pow2 1024" by (simp add: pow2_def)
  finally have "\<not> pow2 1024 \<le> ?r" by simp
  then show ?thesis
    using assms(3) by (simp add: round_pos_def fl Let_def max_def)
qed

lemma round_pos_bounds:
  assumes "pow2 k \<le> x" "x < pow2 (k + 1)" "- 1022 \<le> k" "k \<le> 1022"
  shows "\<exists>r. round_pos x = Fin r \<and> pow2 k \<le> r \<and> r \<le> pow2 (k + 1)"
  using round_pos_normal [OF assms] round_half_even_binade [OF assms(1,2)] by simp


lemma to_double_3_10: "to_double (3 / 10) = Fin (5404319552844595 / 2 ^ 54)"
proof -
  have "round_pos (3 / 10) =
      Fin (of_int (round_half_even (3 / 10 / pow2 (- 2 - 52))) * pow2 (- 2 - 52))"
    by (rule round_pos_normal) (simp_all add: pow2_def)
  moreover have "round_half_even (3 / 10 / pow2 (- 2 - 52)) \<le> 5404319552844595"
    by (rule round_half_even_le) (simp add: pow2_def)
  moreover have "5404319552844594 + 1 \<le> round_half_even (3 / 10 / pow2 (- 2 - 52))"
    by (rule round_half_even_gt) (simp add: pow2_def)
  ultimately have "round_pos (3 / 10) = Fin (of_int 5404319552844595 * pow2 (- 2 - 52))"
    by simp
  then show ?thesis by (simp add: to_double_def pow2_def)
qed

lemma ratio_threshold:
  assumes n: "0 < n" "n < 2 ^ 52" and c: "0 < c" "c \<le> n"
  shows "js_gt (js_div_nat c n) (to_double (3 / 10)) \<longleftrightarrow> 3 * n < 10 * c"
proof -
  define C :: rat where "C = of_nat c"
  define N :: rat where "N = of_nat n"
  define x where "x = C / N"
  have "(of_nat n :: rat) < of_nat (2 ^ 52)" using n(2) by (simp only: of_nat_less_iff)
  then have N: "0 < N" "N < 2 ^ 52" using n(1) unfolding N_def by simp_all
  have C: "1 \<le> C" "C \<le> N" using c unfolding C_def N_def by simp_all
  have "3 * n < 10 * c \<longleftrightarrow> (of_nat (3 * n) :: rat) < of_nat (10 * c)"
    by (simp only: of_nat_less_iff)
  then have iff: "3 * n < 10 * c \<longleftrightarrow> 3 * N < 10 * C"
    unfolding C_def N_def by simp
  have x: "0 < x" "x \<le> 1" using N C by (simp_all add: x_def)
  have xlow: "pow2 (- 52) < x"
  proof -
    have "N * pow2 (- 52) < 1" using N by (simp add: pow2_def)
    also have "\<dots> \<le> C" by (rule C)
    finally show ?thesis using N by (simp add: x_def pos_less_divide_eq mult.commute)
  qed
  define k where "k = floor_log2 x"
  have kb: "pow2 k \<le> x" "x < pow2 (k + 1)"
    using floor_log2_bounds [OF x(1)] by (simp_all add: k_def)
  have k0: "k \<le> 0"
  proof (rule ccontr)
    assume "\<not> k \<le> 0"
    then have "pow2 1 \<le> pow2 k" by (intro pow2_mono) simp
    with kb(1) x(2) show False by (simp add: pow2_def)
  qed
  have k52: "- 52 \<le> k"
  proof (rule ccontr)
    assume "\<not> - 52 \<le> k"
    then have "pow2 (k + 1) \<le> pow2 (- 52)" by (intro pow2_mono) simp
    with kb(2) xlow show False by simp
  qed
  have dbl: "js_div_nat c n = round_pos x"
    using n c x by (simp add: js_div_nat_def to_double_def x_def C_def N_def)
  obtain r where r: "round_pos x = Fin r" "pow2 k \<le> r" "r \<le> pow2 (k + 1)"
    using round_pos_bounds [OF kb] k0 k52 by auto
  consider "k \<le> - 3" | "k = - 2" | "- 1 \<le> k" by linarith
  then show ?thesis
  proof cases
    case 1
    then have "pow2 (k + 1) \<le> pow2 (- 2)" by (intro pow2_mono) simp
    then have le: "pow2 (k + 1) \<le> 1 / 4" by (simp add: pow2_def)
    with r(3) have "\<not> js_gt (Fin r) (Fin (5404319552844595 / 2 ^ 54))" by simp
    moreover have "\<not> 3 * N < 10 * C"
    proof -
      from kb(2) le have "x < 1 / 4" by linarith
      then have "C / N < 1 / 4" by (simp only: x_def)
      then have "4 * C < N" using N by (simp add: pos_divide_less_eq)
      then show ?thesis using N by simp
    qed
    ultimately show ?thesis by (simp add: dbl r(1) to_double_3_10 iff)
  next
    case 2
    then have rp: "round_pos x = Fin (of_int (round_half_even (x * 2 ^ 54)) / 2 ^ 54)"
      using round_pos_normal [OF kb] by (simp add: pow2_def)
    show ?thesis
    proof (cases "3 * N < 10 * C")
      case True
      have "3 * n < 10 * c" using True iff by simp
      then have "3 * n + 1 \<le> 10 * c" by simp
      then have "(of_nat (3 * n + 1) :: rat) \<le> of_nat (10 * c)"
        by (simp only: of_nat_le_iff)
      then have "3 * N + 1 \<le> 10 * C" unfolding C_def N_def by simp
      then have "(of_int 5404319552844595 + 1 / 2) * N < C * 2 ^ 54"
        using N by simp
      then have "of_int 5404319552844595 + 1 / 2 < x * 2 ^ 54"
        using N by (simp add: x_def pos_less_divide_eq)
      then have "5404319552844595 + 1 \<le> round_half_even (x * 2 ^ 54)"
        by (rule round_half_even_gt)
      then have "(5404319552844595 :: rat) < of_int (round_half_even (x * 2 ^ 54))"
        by linarith
      then show ?thesis using True by (simp add: dbl rp to_double_3_10 iff)
    next
      case False
      then have "C * 2 ^ 54 < (of_int 5404319552844595 + 1 / 2) * N"
        using N by simp
      then have "x * 2 ^ 54 < of_int 5404319552844595 + 1 / 2"
        using N by (simp add: x_def pos_divide_less_eq)
      then have "round_half_even (x * 2 ^ 54) \<le> 5404319552844595"
        by (rule round_half_even_le)
      then have "\<not> (5404319552844595 :: rat) < of_int (round_half_even (x * 2 ^ 54))"
        by linarith
      then show ?thesis using False by (simp add: dbl rp to_double_3_10 iff)
    qed
  next
    case 3
    then have "pow2 (- 1) \<le> pow2 k" by (intro pow2_mono) simp
    then have ge: "1 / 2 \<le> pow2 k" by (simp add: pow2_def)
    with r(2) have "js_gt (Fin r) (Fin (5404319552844595 / 2 ^ 54))" by simp
    moreover have "3 * N < 10 * C"
    proof -
      from kb(1) ge have "1 / 2 \<le> x" by linarith
      then have "1 / 2 \<le> C / N" by (simp only: x_def)
      then have "N \<le> 2 * C" using N by (simp add: pos_le_divide_eq)
      then show ?thesis using N by simp
    qed
    ultimately show ?thesis by (simp add: dbl r(1) to_double_3_10 iff)
  qed
qed


text \<open>
  C9. The heuristic of \<open>isBinary\<close> counts the bytes below 32 other than 9, 10 and 13
  (\<open>nonPrintableCount\<close>) and classifies a non-empty sequence as binary exactly when the
  count exceeds 30 per cent of the length; so a sequence with 40 per cent of such bytes is
  binary and one with 20 per cent is not. The comparison is the one the source makes, in
  double precision: the quotient of the two lengths, rounded, against the double nearest to
  0.3. The two agree for every array shorter than \<open>2^52\<close> bytes.
\<close>

theorem isBinary_threshold:
  assumes "bytes \<noteq> []" and "length bytes < 2 ^ 52"
  shows "(isBinary bytes \<longleftrightarrow> 3 * length bytes < 10 * nonPrintableCount bytes)
    \<and> nonPrintableCount bytes = length (filter (\<lambda>b. b < 32 \<and> b \<noteq> 9 \<and> b \<noteq> 10 \<and> b \<noteq> 13) bytes)
    \<and> (10 * nonPrintableCount bytes = 4 * length bytes \<longrightarrow> isBinary bytes)
    \<and> (10 * nonPrintableCount bytes = 2 * length bytes \<longrightarrow> \<not> isBinary bytes)"
proof -
  define c where "c = nonPrintableCount bytes"
  define n where "n = length bytes"
  have n: "0 < n" "n < 2 ^ 52" using assms by (simp_all add: n_def)
  have cn: "c \<le> n" by (simp add: c_def n_def nonPrintableCount_def)
  have main: "isBinary bytes \<longleftrightarrow> 3 * n < 10 * c"
  proof (cases "c = 0")
    case True
    have "js_div_nat 0 n = Fin 0" using n by (simp add: js_div_nat_def to_double_def)
    with True show ?thesis
      by (simp add: isBinary_def c_def [symmetric] n_def [symmetric] to_double_3_10)
  next
    case False
    then have "0 < c" by simp
    then show ?thesis
      using ratio_threshold [OF n _ cn]
      by (simp add: isBinary_def c_def [symmetric] n_def [symmetric])
  qed
  have cnt: "c = length (filter (\<lambda>b. b < 32 \<and> b \<noteq> 9 \<and> b \<noteq> 10 \<and> b \<noteq> 13) bytes)"
    by (simp add: c_def nonPrintableCount_def nonPrintable_def [abs_def])
  show ?thesis
    using main cnt n by (simp add: c_def [symmetric] n_def [symmetric])
qed

theorem isBinary_threshold_witness:
  "[0, 0, 0, 0, 65, 66, 67, 68, 69, 70] \<noteq> ([] :: byte list)
   \<and> length [0, 0, 0, 0, 65, 66, 67, 68, 69, 70 :: byte] < 2 ^ 52
   \<and> isBinary [0, 0, 0, 0, 65, 66, 67, 68, 69, 70]
   \<and> \<not> isBinary [0, 0, 9, 10, 65, 66, 67, 68, 69, 70]"
  using isBinary_threshold [of "[0, 0, 0, 0, 65, 66, 67, 68, 69, 70]"]
    isBinary_threshold [of "[0, 0, 9, 10, 65, 66, 67, 68, 69, 70]"]
  by (simp add: nonPrintableCount_def nonPrintable_def)

subsection \<open>Substrings and lower case\<close>

lemma str_includes_iff: "str_includes s t \<longleftrightarrow> (\<exists>p q. s = p @ t @ q)"
proof (induction s)
  case Nil
  then show ?case by auto
next
  case (Cons c cs)
  have "(\<exists>p q. c # cs = p @ t @ q) \<longleftrightarrow> (\<exists>q. c # cs = t @ q) \<or> (\<exists>p q. cs = p @ t @ q)"
  proof
    assume "\<exists>p q. c # cs = p @ t @ q"
    then obtain p q where pq: "c # cs = p @ t @ q" by blast
    show "(\<exists>q. c # cs = t @ q) \<or> (\<exists>p q. cs = p @ t @ q)"
    proof (cases p)
      case Nil
      with pq show ?thesis by auto
    next
      case (Cons a p')
      with pq have "cs = p' @ t @ q" by simp
      then show ?thesis by blast
    qed
  next
    assume "(\<exists>q. c # cs = t @ q) \<or> (\<exists>p q. cs = p @ t @ q)"
    then show "\<exists>p q. c # cs = p @ t @ q"
    proof
      assume "\<exists>q. c # cs = t @ q"
      then obtain q where "c # cs = [] @ t @ q" by auto
      then show ?thesis by blast
    next
      assume "\<exists>p q. cs = p @ t @ q"
      then obtain p q where "c # cs = (c # p) @ t @ q" by auto
      then show ?thesis by blast
    qed
  qed
  with Cons show ?case by (simp add: prefix_def)
qed

lemma str_includes_toLowerCase:
  "str_includes s t \<Longrightarrow> str_includes (toLowerCase s) (toLowerCase t)"
  unfolding str_includes_iff toLowerCase_def by (metis map_append)

lemma lower_literals:
  "toLowerCase ''application/json'' = ''application/json''"
  "toLowerCase ''image/'' = ''image/''"
  "toLowerCase ''video/'' = ''video/''"
  "toLowerCase ''audio/'' = ''audio/''"
  "toLowerCase ''application/octet-stream'' = ''application/octet-stream''"
  "toLowerCase ''application/pdf'' = ''application/pdf''"
  "toLowerCase ''application/zip'' = ''application/zip''"
  "toLowerCase ''multipart/form-data'' = ''multipart/form-data''"
  by (simp_all add: toLowerCase_def toLowerCase_char_def)


text \<open>
  C8. For a plain string body (the headers being any that \<open>getContentType\<close> reads without
  an exception, no headers among them): when its length exceeds \<open>maxBodySize\<close> the result
  of \<open>captureRequestBody\<close> is the truncation marker whose size is the full length and
  whose preview is the first 100 characters, in particular for a length of 20000 against a
  limit of 10000; otherwise the body goes to \<open>parseBodyText\<close>.
\<close>

theorem captureRequestBody_string:
  assumes "getContentType headers = Inr contentType"
  shows "(js_gt (js_length text) (maxBodySize opts) \<longrightarrow>
            captureRequestBody opts (StringBody text) headers
              = Inr (Truncated (Fin (of_nat (length text))) (Preview (take 100 text))))
    \<and> (\<not> js_gt (js_length text) (maxBodySize opts) \<longrightarrow>
            captureRequestBody opts (StringBody text) headers
              = Inr (parseBodyText text contentType))
    \<and> (length text = 20000 \<and> maxBodySize opts = Fin 10000 \<longrightarrow>
            captureRequestBody opts (StringBody text) headers
              = Inr (Truncated (Fin 20000) (Preview (take 100 text))))
    \<and> outcome_js (Truncated (Fin (of_nat (length text))) (Preview (take 100 text)))
         = Inl (JObj [(''_truncated'', JBool True), (''_size'', JNum (Fin (of_nat (length text)))),
                      (''_preview'', JStr (take 100 text))])"
  using assms
  by (simp add: captureRequestBody_def captureRequestBody_try_def js_length_def substring_def)

theorem captureRequestBody_string_witness:
  "getContentType None = Inr None
   \<and> js_gt (js_length (replicate 20000 (CHR ''a''))) (maxBodySize (merge_options defaults))
   \<and> captureRequestBody (merge_options defaults) (StringBody (replicate 20000 (CHR ''a''))) None
       = Inr (Truncated (Fin 20000) (Preview (replicate 100 (CHR ''a''))))
   \<and> \<not> js_gt (js_length ''ping'') (maxBodySize (merge_options defaults))
   \<and> captureRequestBody (merge_options defaults) (StringBody ''ping'') None
       = Inr (parseBodyText ''ping'' None)"
  using captureRequestBody_string [of None None "replicate 20000 (CHR ''a'')" "merge_options defaults"]
    captureRequestBody_string [of None None "''ping''" "merge_options defaults"]
  by (simp add: getContentType_def merge_options_def defaults_def js_length_def)









text \<open>
  C1, as stated, fails: the text \<^verbatim>\<open>{bad\<close> is not JSON and is declared
  \<^verbatim>\<open>application/json\<close>, and both captures return it as raw text, not as an error marker.
\<close>

theorem declared_json_parse_failure_counterexample:
  "JSON_parse ''{bad'' = None
   \<and> getContentType (Some json_headers) = Inr (Some ''application/json'')
   \<and> captureRequestBody (merge_options defaults) (StringBody ''{bad'') (Some json_headers)
       = Inr (RawText ''{bad'')
   \<and> fst (captureResponseBody (merge_options defaults) bad_json_response)
       = Inr (RawText ''{bad'')"
  by code_simp

lemma declared_json:
  assumes "str_includes contentType ''application/json''"
  shows "\<not> falsy_string (Some contentType)"
    and "str_includes (toLowerCase contentType) ''application/json''"
proof -
  from assms obtain p q where "contentType = p @ ''application/json'' @ q"
    unfolding str_includes_iff by blast
  then show "\<not> falsy_string (Some contentType)" by (simp add: falsy_string_def)
  from str_includes_toLowerCase [OF assms]
  show "str_includes (toLowerCase contentType) ''application/json''"
    by (simp add: lower_literals)
qed

text \<open>
  C1, amended. For a text that is not JSON and a content type containing
  \<^verbatim>\<open>application/json\<close>: the \<^verbatim>\<open>try\<close> block of \<open>parseBodyText\<close> throws, its own
  \<^verbatim>\<open>catch\<close> returns the text, and so the \<^verbatim>\<open>try\<close> blocks of both captures complete
  with the raw text (for a string body within the size bound, and for a readable,
  non-binary response within the size bound); the handlers that build the error marker are
  not reached.
\<close>

theorem declared_json_parse_failure_is_raw_text:
  assumes "JSON_parse text = None" and "str_includes contentType ''application/json''"
  shows "parseBodyText_try text (Some contentType) = None
    \<and> parseBodyText text (Some contentType) = RawText text
    \<and> (getContentType headers = Inr (Some contentType)
         \<and> \<not> js_gt (js_length text) (maxBodySize opts) \<longrightarrow>
           captureRequestBody_try opts (StringBody text) headers = Inr (RawText text)
           \<and> captureRequestBody opts (StringBody text) headers = Inr (RawText text))
    \<and> (Headers_get (resp_headers r) ''content-type'' = Some contentType
         \<and> \<not> js_gt (parseInt10 (or_else (Headers_get (resp_headers r) ''content-length'') ''0''))
                (maxBodySize opts)
         \<and> \<not> isBinaryContentType contentType
         \<and> \<not> bodyUsed r \<and> body_text r = Inr text
         \<and> \<not> js_gt (js_length text) (maxBodySize opts) \<longrightarrow>
           fst (captureResponseBody_try opts r) = Inr (RawText text)
           \<and> fst (captureResponseBody opts r) = Inr (RawText text))"
proof -
  note dj = declared_json [OF assms(2)]
  have t: "parseBodyText_try text (Some contentType) = None"
    using assms(1) dj by (simp add: parseBodyText_try_def)
  then have p: "parseBodyText text (Some contentType) = RawText text"
    by (simp add: parseBodyText_def)
  have ne: "contentType \<noteq> []" using dj(1) by (simp add: falsy_string_def)
  show ?thesis
    using t p ne
    by (simp add: captureRequestBody_def captureRequestBody_try_def captureResponseBody_def
        captureResponseBody_try_def response_text_def or_else_def Let_def)
qed

theorem declared_json_parse_failure_is_raw_text_witness:
  "JSON_parse ''{bad'' = None \<and> str_includes ''application/json'' ''application/json''
   \<and> parseBodyText ''{bad'' (Some ''application/json'') = RawText ''{bad''
   \<and> getContentType (Some json_headers) = Inr (Some ''application/json'')
   \<and> \<not> js_gt (js_length ''{bad'') (maxBodySize (merge_options defaults))
   \<and> captureRequestBody_try (merge_options defaults) (StringBody ''{bad'') (Some json_headers)
       = Inr (RawText ''{bad'')
   \<and> Headers_get (resp_headers bad_json_response) ''content-type'' = Some ''application/json''
   \<and> \<not> isBinaryContentType ''application/json''
   \<and> \<not> bodyUsed bad_json_response \<and> body_text bad_json_response = Inr ''{bad''
   \<and> fst (captureResponseBody_try (merge_options defaults) bad_json_response)
       = Inr (RawText ''{bad'')"
proof -
  have 1: "JSON_parse ''{bad'' = None" by code_simp
  have 2: "str_includes ''application/json'' ''application/json''" by simp
  have 3: "getContentType (Some json_headers) = Inr (Some ''application/json'')" by code_simp
  have 4: "\<not> js_gt (js_length ''{bad'') (maxBodySize (merge_options defaults))"
    by (simp add: js_length_def merge_options_def defaults_def)
  have 5: "Headers_get (resp_headers bad_json_response) ''content-type'' = Some ''application/json''"
    by code_simp
  have 6: "\<not> js_gt (parseInt10 (or_else (Headers_get (resp_headers bad_json_response)
      ''content-length'') ''0'')) (maxBodySize (merge_options defaults))"
    by code_simp
  have 7: "\<not> isBinaryContentType ''application/json''" by code_simp
  have 8: "\<not> bodyUsed bad_json_response" "body_text bad_json_response = Inr ''{bad''"
    by (simp_all add: bad_json_response_def)
  from declared_json_parse_failure_is_raw_text [OF 1 2, where headers = "Some json_headers"
      and opts = "merge_options defaults" and r = bad_json_response] 1 2 3 4 5 6 7 8
  show ?thesis by simp
qed

subsection \<open>Redaction\<close>

lemma obj_set_present: "k \<in> fst ` set obj \<Longrightarrow> obj_set k v obj = AList.update k v obj"
  by (simp add: obj_set_def obj_define_def)

lemma fst_redact_step:
  "fst (redact_step key (red, cl)) =
     (if is_sensitive (toLowerCase key) then obj_set key ''[REDACTED]'' red else red)"
  by (simp add: redact_step_def Let_def)

lemma fold_redact_keys:
  "set ks \<subseteq> fst ` set red \<Longrightarrow> map fst (fst (fold redact_step ks (red, cl))) = map fst red"
proof (induction ks arbitrary: red cl)
  case Nil
  then show ?case by simp
next
  case (Cons k ks)
  obtain red' cl' where step: "redact_step k (red, cl) = (red', cl')"
    by (cases "redact_step k (red, cl)")
  have k: "k \<in> fst ` set red" using Cons.prems by simp
  have red': "red' = (if is_sensitive (toLowerCase k) then AList.update k ''[REDACTED]'' red else red)"
    using fst_redact_step [of k red cl] step obj_set_present [OF k] by simp
  have keys: "map fst red' = map fst red"
    using k by (simp add: red' update_keys)
  then have "fst ` set red' = fst ` set red" by (metis set_map)
  with Cons.prems have "set ks \<subseteq> fst ` set red'" by simp
  from Cons.IH [OF this] keys show ?case by (simp add: step)
qed

lemma fold_redact_map_of:
  "set ks \<subseteq> fst ` set red \<Longrightarrow>
     map_of (fst (fold redact_step ks (red, cl))) key =
       (if key \<in> set ks \<and> is_sensitive (toLowerCase key) then Some ''[REDACTED]''
        else map_of red key)"
proof (induction ks arbitrary: red cl)
  case Nil
  then show ?case by simp
next
  case (Cons k ks)
  obtain red' cl' where step: "redact_step k (red, cl) = (red', cl')"
    by (cases "redact_step k (red, cl)")
  have k: "k \<in> fst ` set red" using Cons.prems by simp
  have red': "red' = (if is_sensitive (toLowerCase k) then AList.update k ''[REDACTED]'' red else red)"
    using fst_redact_step [of k red cl] step obj_set_present [OF k] by simp
  have keys: "map fst red' = map fst red"
    using k by (simp add: red' update_keys)
  then have "fst ` set red' = fst ` set red" by (metis set_map)
  with Cons.prems have sub: "set ks \<subseteq> fst ` set red'" by simp
  have m: "map_of red' x =
      (if x = k \<and> is_sensitive (toLowerCase k) then Some ''[REDACTED]'' else map_of red x)" for x
    by (simp add: red' update_conv')
  show ?case
    using Cons.IH [OF sub, of cl'] by (auto simp: step m)
qed

lemma heap_fold:
  "r < length h \<Longrightarrow>
     fold (\<lambda>key (h, claims).
             case redact_step key (h ! r, claims) of
               (obj, claims') \<Rightarrow> (h[r := obj], claims')) ks (h, cl)
       = (h[r := fst (fold redact_step ks (h ! r, cl))], snd (fold redact_step ks (h ! r, cl)))"
proof (induction ks arbitrary: h cl)
  case Nil
  then show ?case by simp
next
  case (Cons k ks)
  obtain obj cl' where step: "redact_step k (h ! r, cl) = (obj, cl')"
    by (cases "redact_step k (h ! r, cl)")
  have len: "r < length (h[r := obj])" using Cons.prems by simp
  show ?case
    using Cons.IH [OF len, of cl'] Cons.prems by (simp add: step)
qed

text \<open>
  C3. \<open>redactSensitiveHeaders\<close>, run on a store of header objects: the result is a new
  object with the keys of the input, in the same order and spelling; a key whose lower-case
  form contains an entry of \<open>SENSITIVE_HEADERS\<close> has the value \<^verbatim>\<open>[REDACTED]\<close>, every
  other key keeps its value; the input object, like every object that was in the store, is
  what it was before the call.
\<close>

theorem redactSensitiveHeaders_redacts:
  assumes "headers < length hp"
  shows "case redactSensitiveHeaders_heap hp headers of
           (hp', redactedHeaders, jwtClaims) \<Rightarrow>
             redactedHeaders = length hp
             \<and> length hp' = Suc (length hp)
             \<and> (\<forall>a < length hp. hp' ! a = hp ! a)
             \<and> map fst (hp' ! redactedHeaders) = map fst (hp ! headers)
             \<and> (\<forall>key \<in> fst ` set (hp ! headers).
                   map_of (hp' ! redactedHeaders) key =
                     (if \<exists>sensitive \<in> set SENSITIVE_HEADERS. \<exists>p q. toLowerCase key = p @ sensitive @ q
                      then Some ''[REDACTED]'' else map_of (hp ! headers) key))
             \<and> (hp' ! redactedHeaders, jwtClaims) = redactSensitiveHeaders (hp ! headers)
             \<and> SENSITIVE_HEADERS =
                 [''authorization'', ''cookie'', ''set-cookie'', ''x-api-key'', ''x-auth-token'',
                  ''x-access-token'', ''x-kubiks-key'', ''bearer'', ''proxy-authorization'',
                  ''www-authenticate'', ''proxy-authenticate'']"
proof -
  let ?h = "hp ! headers"
  let ?r = "length hp"
  let ?res = "fold redact_step (map fst ?h) (?h, [])"
  have r: "?r < length (hp @ [?h])" by simp
  have at: "(hp @ [?h]) ! ?r = ?h" by simp
  have eq: "redactSensitiveHeaders_heap hp headers = ((hp @ [?h])[?r := fst ?res], ?r, snd ?res)"
    unfolding redactSensitiveHeaders_heap_def Let_def at heap_fold [OF r, unfolded at] by simp
  have sub: "set (map fst ?h) \<subseteq> fst ` set ?h" by simp
  have sens: "is_sensitive lk \<longleftrightarrow> (\<exists>sensitive \<in> set SENSITIVE_HEADERS. \<exists>p q. lk = p @ sensitive @ q)" for lk
    by (simp add: is_sensitive_def list_ex_iff str_includes_iff)
  have old: "\<forall>a < length hp. ((hp @ [?h])[?r := fst ?res]) ! a = hp ! a"
    by (simp add: nth_append)
  have new: "((hp @ [?h])[?r := fst ?res]) ! ?r = fst ?res" by simp
  show ?thesis
    unfolding eq prod.case new
    using old fold_redact_keys [OF sub, of "[]"] fold_redact_map_of [OF sub, of "[]"]
    by (simp add: sens redactSensitiveHeaders_def) (simp add: SENSITIVE_HEADERS_def)
qed


theorem redactSensitiveHeaders_redacts_witness:
  "(0::nat) < length example_heap
   \<and> redactSensitiveHeaders_heap example_heap 0
       = (example_heap @ [[(''Authorization'', ''[REDACTED]''),
                           (''Content-Type'', ''application/json''),
                           (''X-Api-Key'', ''[REDACTED]'')]],
          1, [(''token.sub'', ''u1''), (''token.admin'', ''true'')])
   \<and> fst (redactSensitiveHeaders_heap example_heap 0) ! 0 = example_heap ! 0"
proof -
  have h: "(0::nat) < length example_heap" by (simp add: example_heap_def)
  have ev: "redactSensitiveHeaders_heap example_heap 0
       = (example_heap @ [[(''Authorization'', ''[REDACTED]''),
                           (''Content-Type'', ''application/json''),
                           (''X-Api-Key'', ''[REDACTED]'')]],
          1, [(''token.sub'', ''u1''), (''token.admin'', ''true'')])"
    by code_simp
  from redactSensitiveHeaders_redacts [OF h]
  have "fst (redactSensitiveHeaders_heap example_heap 0) ! 0 = example_heap ! 0"
    using h by (auto split: prod.splits)
  with h ev show ?thesis by simp
qed

subsection \<open>Token claims\<close>

lemma split_on_nonempty: "split_on sep s \<noteq> []"
  by (induction s) (auto split: list.splits)


















subsection \<open>Containment of failures\<close>









subsection \<open>The span of a call\<close>




















subsection \<open>Body attributes\<close>











subsection \<open>Install and restore\<close>

text \<open>
  C6, as stated, fails: after two installs the first handle has been restored by the
  second install; restoring it again is not a no-op, it takes the second interceptor out of
  the slot while \<^verbatim>\<open>interceptorInstance\<close> still holds it.
\<close>

theorem restore_counterexample:
  "fst (run_operations [Enable defaults, Enable defaults] (initial_global, []))
     = \<lparr>fetch = Intercepting (merge_options defaults) (Transport 0),
        interceptorInstance = Some \<lparr>its_options = merge_options defaults, originalFetch = Transport 0\<rparr>\<rparr>
   \<and> snd (run_operations [Enable defaults, Enable defaults] (initial_global, [])) ! 0
     = \<lparr>its_options = merge_options defaults, originalFetch = Transport 0\<rparr>
   \<and> fst (run_operations [Enable defaults, Enable defaults, Restore 0] (initial_global, []))
     = \<lparr>fetch = Transport 0,
        interceptorInstance = Some \<lparr>its_options = merge_options defaults, originalFetch = Transport 0\<rparr>\<rparr>
   \<and> Intercepting (merge_options defaults) (Transport 0) \<noteq> Transport 0"
  by (simp add: run_operations_def enableFetchBodyCapture_def new_FetchInterceptor_def
      restore_def initial_global_def Let_def)

lemma well_layered_step: "well_layered n st \<Longrightarrow> well_layered n (run_operation op st)"
proof (cases st)
  case (Pair g handles)
  assume w: "well_layered n st"
  show ?thesis
  proof (cases op)
    case (Enable given)
    with w Pair show ?thesis
      by (auto simp: well_layered_def enableFetchBodyCapture_def new_FetchInterceptor_def
          restore_def Let_def split: option.splits fetchfn.splits)
  next
    case Disable
    with w Pair show ?thesis
      by (auto simp: well_layered_def disableFetchBodyCapture_def restore_def
          split: option.splits fetchfn.splits)
  next
    case (Restore k)
    with w Pair show ?thesis
      by (auto simp: well_layered_def restore_def list_all_length
          split: option.splits fetchfn.splits)
  qed
qed

lemma well_layered_run: "well_layered n st \<Longrightarrow> well_layered n (run_operations ops st)"
  unfolding run_operations_def
  by (induction ops arbitrary: st) (simp_all add: well_layered_step)

text \<open>
  C6, amended. Installing over an active handle gives the new handle the saved original
  of the old one, and the slot one layer of interception over it; installing with no
  active handle saves the slot. In every state reached from a slot holding a transport by
  installs, \<^verbatim>\<open>disableFetchBodyCapture\<close> and restores of handles, every handle has saved
  that transport and the slot holds it under at most one layer. After a restore the slot
  holds the handle's saved original, and a call of a transport in the slot is the
  transport's call, with no span. A restore is a no-op exactly when the slot already holds
  the handle's saved original, so a second restore in a row is one;
  \<^verbatim>\<open>disableFetchBodyCapture\<close> is a no-op when no handle is active, and idempotent.
\<close>

theorem install_restore:
  shows "(interceptorInstance g = Some inst \<longrightarrow>
            (case enableFetchBodyCapture given g of
               (self, g') \<Rightarrow> originalFetch self = originalFetch inst
                 \<and> fetch g' = Intercepting (merge_options given) (originalFetch inst)
                 \<and> interceptorInstance g' = Some self))
    \<and> (interceptorInstance g = None \<longrightarrow>
            (case enableFetchBodyCapture given g of
               (self, g') \<Rightarrow> originalFetch self = fetch g
                 \<and> fetch g' = Intercepting (merge_options given) (fetch g)
                 \<and> interceptorInstance g' = Some self))
    \<and> well_layered n (run_operations ops (\<lparr>fetch = Transport n, interceptorInstance = None\<rparr>, []))
    \<and> fetch (restore self g) = originalFetch self
    \<and> interceptorInstance (restore self g) = interceptorInstance g
    \<and> call_fetch pf transport (Transport n) input i = ([], transport n input i)
    \<and> (restore self g = g \<longleftrightarrow> fetch g = originalFetch self)
    \<and> restore self (restore self g) = restore self g
    \<and> (interceptorInstance g = None \<longrightarrow> disableFetchBodyCapture g = g)
    \<and> disableFetchBodyCapture (disableFetchBodyCapture g) = disableFetchBodyCapture g"
proof -
  have 1: "case enableFetchBodyCapture given g of
               (self, g') \<Rightarrow> originalFetch self = originalFetch inst
                 \<and> fetch g' = Intercepting (merge_options given) (originalFetch inst)
                 \<and> interceptorInstance g' = Some self"
    if "interceptorInstance g = Some inst"
    using that by (simp add: enableFetchBodyCapture_def new_FetchInterceptor_def restore_def Let_def)
  have 2: "case enableFetchBodyCapture given g of
               (self, g') \<Rightarrow> originalFetch self = fetch g
                 \<and> fetch g' = Intercepting (merge_options given) (fetch g)
                 \<and> interceptorInstance g' = Some self"
    if "interceptorInstance g = None"
    using that by (simp add: enableFetchBodyCapture_def new_FetchInterceptor_def Let_def)
  have 3: "well_layered n (run_operations ops (\<lparr>fetch = Transport n, interceptorInstance = None\<rparr>, []))"
    by (rule well_layered_run) (simp add: well_layered_def)
  have 4: "restore self g = g \<longleftrightarrow> fetch g = originalFetch self"
    by (cases g) (auto simp: restore_def)
  have 5: "disableFetchBodyCapture (disableFetchBodyCapture g) = disableFetchBodyCapture g"
    by (simp add: disableFetchBodyCapture_def split: option.splits)
  show ?thesis
    using 1 2 3 4 5
    by (simp add: restore_def disableFetchBodyCapture_def)
qed


theorem install_restore_witness:
  "enableFetchBodyCapture defaults initial_global = (first_handle, installed_global)
   \<and> interceptorInstance installed_global = Some first_handle
   \<and> originalFetch (fst (enableFetchBodyCapture defaults installed_global)) = Transport 0
   \<and> fetch (snd (enableFetchBodyCapture defaults installed_global))
       = Intercepting (merge_options defaults) (Transport 0)
   \<and> interceptorInstance initial_global = None
   \<and> disableFetchBodyCapture initial_global = initial_global
   \<and> fetch (restore first_handle installed_global) = Transport 0
   \<and> disableFetchBodyCapture installed_global = initial_global"
proof -
  have a: "enableFetchBodyCapture defaults initial_global = (first_handle, installed_global)"
    by (simp add: enableFetchBodyCapture_def new_FetchInterceptor_def initial_global_def
        first_handle_def installed_global_def Let_def)
  have b: "interceptorInstance installed_global = Some first_handle"
    by (simp add: installed_global_def)
  have c: "interceptorInstance initial_global = None" by (simp add: initial_global_def)
  have o: "originalFetch first_handle = Transport 0" by (simp add: first_handle_def)
  note t = install_restore [where given = defaults and n = 0 and ops = "[]"
      and self = first_handle]
  from t [where g = installed_global and inst = first_handle] b o
  have d: "originalFetch (fst (enableFetchBodyCapture defaults installed_global)) = Transport 0"
    "fetch (snd (enableFetchBodyCapture defaults installed_global))
       = Intercepting (merge_options defaults) (Transport 0)"
    by (cases "enableFetchBodyCapture defaults installed_global", simp)+
  from t [where g = initial_global] c
  have e: "disableFetchBodyCapture initial_global = initial_global" by blast
  from t [where g = installed_global] o
  have f: "fetch (restore first_handle installed_global) = Transport 0" by simp
  have g: "disableFetchBodyCapture installed_global = initial_global"
    by (simp add: disableFetchBodyCapture_def restore_def installed_global_def
        initial_global_def first_handle_def)
  from a b c d e f g show ?thesis by simp
qed

end
